theory Spec2Isabelle
  imports Complex_Main "HOL-Library.AList"
begin

section \<open>Common data\<close>

text \<open>
  A Python \<open>str\<close> is a sequence of Unicode code points; texts and queries are lists of
  code points. Identifiers that the program only compares (dictionary keys, document and
  conversation ids, search types) are plain ASCII strings. A Python \<open>float\<close> is read as a
  real number and a \<open>datetime\<close> as a number of microseconds. A \<open>dict\<close> is an association
  list in insertion order, read with \<open>map_of\<close> and written with \<open>AList.update\<close>.
\<close>

type_synonym pystr = "nat list"

definition ascii :: "string \<Rightarrow> pystr" where
  \<comment> \<open>the code points of an ASCII literal\<close>
  "ascii cs = map of_char cs"

datatype py_error = KeyError | TypeError | ValueError | ProviderError pystr

datatype 'a outcome = Returns 'a | Raises py_error

definition last_n :: "nat \<Rightarrow> 'a list \<Rightarrow> 'a list" where
  \<comment> \<open>the slice \<open>xs[-n:]\<close> for a positive \<open>n\<close>\<close>
  "last_n n xs = drop (length xs - n) xs"

definition py_isspace :: "nat \<Rightarrow> bool" where
  \<comment> \<open>the code points that \<open>str.strip()\<close> removes\<close>
  "py_isspace c \<longleftrightarrow>
     (9 \<le> c \<and> c \<le> 13) \<or> (28 \<le> c \<and> c \<le> 32) \<or> c = 133 \<or> c = 160 \<or> c = 5760 \<or>
     (8192 \<le> c \<and> c \<le> 8202) \<or> c = 8232 \<or> c = 8233 \<or> c = 8239 \<or> c = 8287 \<or> c = 12288"

definition strip :: "pystr \<Rightarrow> pystr" where
  "strip s = rev (dropWhile py_isspace (rev (dropWhile py_isspace s)))"

section \<open>Conversation manager (conversation_manager.py)\<close>

datatype ChatRole = USER | ASSISTANT | SYSTEM

record ChatMessage =
  role :: ChatRole
  content :: pystr
  timestamp :: int
  msg_metadata :: "(string \<times> pystr) list"

record ConversationHistory =
  conversation_id :: string
  messages :: "ChatMessage list"
  created_at :: int
  updated_at :: int

record RAGMetrics =
  total_requests :: int
  successful_requests :: int
  failed_requests :: int
  total_response_time :: real
  average_response_time :: real

record ConversationManager =
  conversations :: "(string \<times> ConversationHistory) list"
  max_conversations :: int
  expire_hours :: int
  metrics :: RAGMetrics

definition new_RAGMetrics :: RAGMetrics where
  "new_RAGMetrics =
     \<lparr>total_requests = 0, successful_requests = 0, failed_requests = 0,
      total_response_time = 0, average_response_time = 0\<rparr>"

definition new_ConversationManager :: "int \<Rightarrow> int \<Rightarrow> ConversationManager" where
  "new_ConversationManager max_convs hours =
     \<lparr>conversations = [], max_conversations = max_convs, expire_hours = hours,
      metrics = new_RAGMetrics\<rparr>"

text \<open>
  \<open>create_conversation\<close>: an absent or empty id is replaced by a generated one
  (\<open>new_uuid\<close> stands for \<open>str(uuid.uuid4())\<close>); \<open>now\<close> is the clock reading.
\<close>

definition create_conversation ::
  "string option \<Rightarrow> string \<Rightarrow> int \<Rightarrow> ConversationManager \<Rightarrow> string \<times> ConversationManager" where
  "create_conversation cid_opt new_uuid now cm =
     (let cid = (case cid_opt of None \<Rightarrow> new_uuid
                 | Some c \<Rightarrow> if c = [] then new_uuid else c)
      in if map_of (conversations cm) cid = None
         then (cid, cm\<lparr>conversations :=
                 AList.update cid
                   \<lparr>conversation_id = cid, messages = [], created_at = now, updated_at = now\<rparr>
                   (conversations cm)\<rparr>)
         else (cid, cm))"

definition max_messages :: nat where
  "max_messages = 100"

definition add_message ::
  "string \<Rightarrow> ChatRole \<Rightarrow> pystr \<Rightarrow> (string \<times> pystr) list option \<Rightarrow> string \<Rightarrow> int \<Rightarrow>
   ConversationManager \<Rightarrow> bool outcome \<times> ConversationManager" where
  "add_message cid r c meta new_uuid now cm =
     (let cm1 = (if map_of (conversations cm) cid = None
                 then snd (create_conversation (Some cid) new_uuid now cm) else cm)
      in case map_of (conversations cm1) cid of
           None \<Rightarrow> (Raises KeyError, cm1)
         | Some conversation \<Rightarrow>
             let message = \<lparr>role = r, content = c, timestamp = now,
                            msg_metadata = (case meta of None \<Rightarrow> [] | Some m \<Rightarrow> m)\<rparr>;
                 appended = messages conversation @ [message];
                 trimmed = (if length appended > max_messages
                            then last_n max_messages appended else appended);
                 conversation' = conversation\<lparr>messages := trimmed, updated_at := now\<rparr>
             in (Returns True,
                 cm1\<lparr>conversations := AList.update cid conversation' (conversations cm1)\<rparr>))"

definition get_conversation :: "string \<Rightarrow> ConversationManager \<Rightarrow> ConversationHistory option" where
  "get_conversation cid cm = map_of (conversations cm) cid"

text \<open>
  One request to \<open>add_message\<close>: role, content, metadata, the id the generator would give,
  and the clock. \<open>add_messages\<close> sends a list of them to one conversation, one after the
  other, and stops at the first that raises.
\<close>

type_synonym msg_request = "ChatRole \<times> pystr \<times> (string \<times> pystr) list option \<times> string \<times> int"

definition request_message :: "msg_request \<Rightarrow> ChatMessage" where
  "request_message q =
     (case q of (r, c, meta, new_uuid, now) \<Rightarrow>
        \<lparr>role = r, content = c, timestamp = now,
         msg_metadata = (case meta of None \<Rightarrow> [] | Some m \<Rightarrow> m)\<rparr>)"

fun add_messages ::
  "string \<Rightarrow> msg_request list \<Rightarrow> ConversationManager \<Rightarrow> bool outcome \<times> ConversationManager" where
  "add_messages cid [] cm = (Returns True, cm)"
| "add_messages cid (q # qs) cm =
     (case q of (r, c, meta, new_uuid, now) \<Rightarrow>
        (case add_message cid r c meta new_uuid now cm of
           (Returns b, cm') \<Rightarrow> add_messages cid qs cm'
         | (Raises e, cm') \<Rightarrow> (Raises e, cm')))"

definition update_metrics :: "real \<Rightarrow> bool \<Rightarrow> ConversationManager \<Rightarrow> ConversationManager" where
  "update_metrics response_time success cm =
     (let m = metrics cm;
          m1 = m\<lparr>total_requests := total_requests m + 1\<rparr>;
          m2 = m1\<lparr>total_response_time := total_response_time m1 + response_time\<rparr>;
          m3 = (if success then m2\<lparr>successful_requests := successful_requests m2 + 1\<rparr>
                else m2\<lparr>failed_requests := failed_requests m2 + 1\<rparr>);
          m4 = (if total_requests m3 > 0
                then m3\<lparr>average_response_time :=
                          total_response_time m3 / real_of_int (total_requests m3)\<rparr>
                else m3)
      in cm\<lparr>metrics := m4\<rparr>)"

definition update_metrics_all ::
  "(real \<times> bool) list \<Rightarrow> ConversationManager \<Rightarrow> ConversationManager" where
  \<comment> \<open>a sequence of \<open>update_metrics\<close> calls, in order\<close>
  "update_metrics_all calls cm = foldl (\<lambda>s (t, ok). update_metrics t ok s) cm calls"

section \<open>Search results (retrieval_service.py)\<close>

text \<open>
  A search result is a \<open>dict\<close>; each key the service reads or writes is a field, \<open>None\<close>
  when the key is absent (the service reads them with \<open>.get\<close> and a default).
\<close>

record search_result =
  result_text :: "pystr option"
  document_id :: "string option"
  similarity_score :: "real option"
  search_type :: "string option"
  final_score :: "real option"
  semantic_score :: "real option"
  keyword_score :: "real option"
  highlight_text :: "pystr option"
  matched_keywords :: "pystr list option"
  document_metadata :: "(string \<times> pystr) list option"

definition get_text :: "search_result \<Rightarrow> pystr" where
  \<comment> \<open>\<open>result.get('text', '')\<close>\<close>
  "get_text r = (case result_text r of None \<Rightarrow> [] | Some t \<Rightarrow> t)"

definition get_similarity :: "search_result \<Rightarrow> real" where
  \<comment> \<open>\<open>result.get('similarity_score', 0)\<close>\<close>
  "get_similarity r = (case similarity_score r of None \<Rightarrow> 0 | Some s \<Rightarrow> s)"

definition text_key :: "search_result \<Rightarrow> pystr" where
  \<comment> \<open>\<open>text[:100].strip()\<close>\<close>
  "text_key r = strip (take 100 (get_text r))"

fun dedup_loop :: "pystr set \<Rightarrow> search_result list \<Rightarrow> search_result list" where
  "dedup_loop seen_texts [] = []"
| "dedup_loop seen_texts (result # rest) =
     (if text_key result \<notin> seen_texts
      then result # dedup_loop (insert (text_key result) seen_texts) rest
      else dedup_loop seen_texts rest)"

definition deduplicate_results :: "search_result list \<Rightarrow> search_result list" where
  "deduplicate_results results = dedup_loop {} results"

definition rank_key :: "search_result \<Rightarrow> real" where
  \<comment> \<open>the sort key \<open>x.get('final_score', x.get('similarity_score', 0))\<close>\<close>
  "rank_key r = (case final_score r of None \<Rightarrow> get_similarity r | Some f \<Rightarrow> f)"

subsection \<open>Fusion of the two passes\<close>

text \<open>
  \<open>_merge_search_results\<close> groups by the string \<open>f"{document_id}_{hash(text)}"\<close>. The
  decimal form of the hash has no underscore, so two such strings are equal exactly when
  the document ids and the hashes are; the key is kept as that pair. The hash of a string
  is Python's, a parameter here.
\<close>

definition result_key :: "(pystr \<Rightarrow> int) \<Rightarrow> search_result \<Rightarrow> string \<times> int" where
  "result_key str_hash r =
     ((case document_id r of None \<Rightarrow> ''unknown'' | Some d \<Rightarrow> d), str_hash (get_text r))"

fun group_append :: "'k \<Rightarrow> 'v \<Rightarrow> ('k \<times> 'v list) list \<Rightarrow> ('k \<times> 'v list) list" where
  \<comment> \<open>\<open>grouped[key].append(v)\<close> on a \<open>defaultdict(list)\<close>, keys in insertion order\<close>
  "group_append k v [] = [(k, [v])]"
| "group_append k v ((k', vs) # groups) =
     (if k' = k then (k', vs @ [v]) # groups else (k', vs) # group_append k v groups)"

definition group_results ::
  "(pystr \<Rightarrow> int) \<Rightarrow> search_result list \<Rightarrow> ((string \<times> int) \<times> search_result list) list" where
  "group_results str_hash results =
     foldl (\<lambda>grouped r. group_append (result_key str_hash r) r grouped) [] results"

definition is_semantic :: "search_result \<Rightarrow> bool" where
  "is_semantic r \<longleftrightarrow> search_type r = Some ''semantic''"

definition is_keyword :: "search_result \<Rightarrow> bool" where
  "is_keyword r \<longleftrightarrow> search_type r = Some ''keyword''"

definition merge_group :: "real \<Rightarrow> real \<Rightarrow> search_result list \<Rightarrow> search_result outcome" where
  "merge_group keyword_weight semantic_weight grp =
     (case grp of
        [result] \<Rightarrow> Returns (result\<lparr>final_score := Some (get_similarity result)\<rparr>)
      | _ \<Rightarrow>
        let semantic_result = find is_semantic grp;
            keyword_result = find is_keyword grp;
            base_result = (case semantic_result of Some s \<Rightarrow> Some s | None \<Rightarrow> keyword_result);
            sem = (case semantic_result of Some s \<Rightarrow> get_similarity s | None \<Rightarrow> 0);
            kw = (case keyword_result of Some k \<Rightarrow> get_similarity k | None \<Rightarrow> 0);
            final = sem * semantic_weight + kw * keyword_weight
        in (case base_result of
              None \<Rightarrow> Raises TypeError
            | Some b \<Rightarrow>
                Returns (b\<lparr>final_score := Some final, search_type := Some ''hybrid'',
                           semantic_score := Some sem, keyword_score := Some kw\<rparr>)))"

fun merge_groups :: "real \<Rightarrow> real \<Rightarrow> search_result list list \<Rightarrow> search_result list outcome" where
  "merge_groups keyword_weight semantic_weight [] = Returns []"
| "merge_groups keyword_weight semantic_weight (grp # groups) =
     (case merge_group keyword_weight semantic_weight grp of
        Raises e \<Rightarrow> Raises e
      | Returns m \<Rightarrow>
          (case merge_groups keyword_weight semantic_weight groups of
             Raises e \<Rightarrow> Raises e
           | Returns ms \<Rightarrow> Returns (m # ms)))"

definition merge_search_results ::
  "(pystr \<Rightarrow> int) \<Rightarrow> search_result list \<Rightarrow> real \<Rightarrow> real \<Rightarrow> search_result list outcome" where
  "merge_search_results str_hash results keyword_weight semantic_weight =
     merge_groups keyword_weight semantic_weight (map snd (group_results str_hash results))"

subsection \<open>The search cache\<close>

record search_response =
  success :: bool
  response_query :: pystr
  response_results :: "search_result list"
  total_results :: nat
  error :: "py_error option"

record cache_item =
  item_result :: search_response
  item_timestamp :: int

datatype service_call =
    ListDocuments
  | GenerateEmbedding pystr
  | SearchSimilarChunks int "string list"
  | KeywordScan pystr int

text \<open>
  The state of a \<open>RetrievalService\<close>. \<open>service_calls\<close> is not a field of the class: it
  records, in order, each call the service makes to the document store, the embedding
  provider, the vector index and the keyword scan.
\<close>

record RetrievalService =
  search_history :: "(pystr \<times> int) list"
  query_cache :: "(string \<times> cache_item) list"
  cache_ttl :: int
  service_calls :: "service_call list"

definition new_RetrievalService :: RetrievalService where
  "new_RetrievalService =
     \<lparr>search_history = [], query_cache = [], cache_ttl = 300, service_calls = []\<rparr>"

definition timedelta_seconds :: "int \<Rightarrow> int" where
  "timedelta_seconds n = n * 1000000"

definition record_search_history :: "pystr \<Rightarrow> int \<Rightarrow> RetrievalService \<Rightarrow> RetrievalService" where
  "record_search_history q now s =
     (let h = search_history s @ [(q, now)]
      in s\<lparr>search_history := (if length h > 1000 then last_n 500 h else h)\<rparr>)"

definition get_cached_result ::
  "string \<Rightarrow> int \<Rightarrow> RetrievalService \<Rightarrow> search_response option \<times> RetrievalService" where
  "get_cached_result cache_key now s =
     (case map_of (query_cache s) cache_key of
        None \<Rightarrow> (None, s)
      | Some cached_item \<Rightarrow>
          if now - item_timestamp cached_item < timedelta_seconds (cache_ttl s)
          then (Some (item_result cached_item), s)
          else (None, s\<lparr>query_cache := AList.delete cache_key (query_cache s)\<rparr>))"

definition cache_result ::
  "string \<Rightarrow> search_response \<Rightarrow> int \<Rightarrow> RetrievalService \<Rightarrow> RetrievalService" where
  "cache_result cache_key result now s =
     (let cache = AList.update cache_key \<lparr>item_result = result, item_timestamp = now\<rparr>
                    (query_cache s)
      in if length cache > 100
         then s\<lparr>query_cache :=
                  filter (\<lambda>(key, item).
                            \<not> now - item_timestamp item > timedelta_seconds (cache_ttl s)) cache\<rparr>
         else s\<lparr>query_cache := cache\<rparr>)"

subsection \<open>Hybrid search\<close>

record document =
  doc_id :: string
  doc_info :: "(string \<times> pystr) list"

record vector_hit =
  hit_text :: pystr
  hit_document_id :: "string option"
  hit_distance :: real

record search_args =
  search_query :: pystr
  n_results :: int
  similarity_threshold :: real
  document_ids :: "string list option"
  document_types :: "string list option"
  date_range :: "(int \<times> int) option"
  tags :: "string list option"
  enable_keyword_search :: bool
  enable_semantic_search :: bool
  keyword_weight :: real
  semantic_weight :: real
  include_metadata :: bool
  deduplicate :: bool

text \<open>
  What the service calls and does not define in \<open>retrieval_service.py\<close>, or what depends
  on a library: Python's string hash, the MD5 digest of \<open>str(args)\<close>, the document store
  behind \<open>_get_candidate_documents\<close> (which returns a list and never raises), the
  embedding provider, the vector index, the keyword pass over the candidate documents
  (\<open>_keyword_search\<close> with its tokenizer; it returns a list and never raises), the
  tokenizer of \<open>_extract_keywords\<close>, the regular-expression highlighter and
  \<open>str.lower\<close>. The theorems hold for every choice of them.
\<close>

record retrieval_env =
  str_hash :: "pystr \<Rightarrow> int"
  md5_hexdigest :: "pystr \<times> int \<times> real \<times> string list option \<times> string list option \<Rightarrow> string"
  get_candidate_documents :: "search_args \<Rightarrow> document list"
  generate_embedding :: "pystr \<Rightarrow> real list option outcome"
  search_similar_chunks :: "real list \<Rightarrow> int \<Rightarrow> string list \<Rightarrow> vector_hit list outcome"
  keyword_search :: "pystr \<Rightarrow> int \<Rightarrow> document list \<Rightarrow> search_result list"
  extract_keywords :: "pystr \<Rightarrow> pystr list"
  highlight_keywords_in_text :: "pystr \<Rightarrow> pystr list \<Rightarrow> pystr"
  lower :: "pystr \<Rightarrow> pystr"

fun contains :: "'a list \<Rightarrow> 'a list \<Rightarrow> bool" where
  \<comment> \<open>\<open>p in s\<close> for strings: \<open>p\<close> occurs in \<open>s\<close> as a contiguous block\<close>
  "contains p [] = (p = [])"
| "contains p (c # s) = (take (length p) (c # s) = p \<or> contains p s)"

definition py_prefix :: "int \<Rightarrow> 'a list \<Rightarrow> 'a list" where
  \<comment> \<open>the slice \<open>xs[:n]\<close>; a negative \<open>n\<close> counts from the end\<close>
  "py_prefix n xs = (if 0 \<le> n then take (nat n) xs else take (length xs - nat (- n)) xs)"

definition format_hit :: "vector_hit \<Rightarrow> search_result" where
  "format_hit h =
     \<lparr>result_text = Some (hit_text h),
      document_id = Some (case hit_document_id h of None \<Rightarrow> ''unknown'' | Some d \<Rightarrow> d),
      similarity_score = Some (1 - hit_distance h),
      search_type = Some ''semantic'',
      final_score = None, semantic_score = None, keyword_score = None,
      highlight_text = None, matched_keywords = None, document_metadata = None\<rparr>"

definition semantic_search ::
  "retrieval_env \<Rightarrow> pystr \<Rightarrow> int \<Rightarrow> string list \<Rightarrow> RetrievalService \<Rightarrow>
   search_result list \<times> RetrievalService" where
  "semantic_search env q n ids s =
     (let s1 = s\<lparr>service_calls := service_calls s @ [GenerateEmbedding q]\<rparr>
      in case generate_embedding env q of
           Raises e \<Rightarrow> ([], s1)
         | Returns None \<Rightarrow> ([], s1)
         | Returns (Some query_embedding) \<Rightarrow>
             if query_embedding = [] then ([], s1)
             else
               let s2 = s1\<lparr>service_calls := service_calls s1 @ [SearchSimilarChunks n ids]\<rparr>
               in (case search_similar_chunks env query_embedding n ids of
                     Raises e \<Rightarrow> ([], s2)
                   | Returns hits \<Rightarrow> (map format_hit hits, s2)))"

definition enhance_results_metadata :: "search_result list \<Rightarrow> document list \<Rightarrow> search_result list" where
  "enhance_results_metadata rs documents =
     (let doc_dict = map_of (rev (map (\<lambda>d. (doc_id d, d)) documents))
      in map (\<lambda>r. case document_id r of
                     None \<Rightarrow> r
                   | Some d \<Rightarrow>
                       if d = [] then r
                       else (case doc_dict d of
                               None \<Rightarrow> r
                             | Some doc \<Rightarrow> r\<lparr>document_metadata := Some (doc_info doc)\<rparr>)) rs)"

definition highlight_result :: "retrieval_env \<Rightarrow> pystr list \<Rightarrow> search_result \<Rightarrow> search_result" where
  "highlight_result env kws r =
     (if get_text r = [] then r
      else
        let r1 = r\<lparr>highlight_text := Some (highlight_keywords_in_text env (get_text r) kws)\<rparr>
        in if search_type r1 = Some ''keyword'' \<and> matched_keywords r1 = None
           then r1\<lparr>matched_keywords :=
                      Some (filter (\<lambda>kw. contains (lower env kw) (lower env (get_text r))) kws)\<rparr>
           else r1)"

definition add_text_highlighting :: "retrieval_env \<Rightarrow> search_result list \<Rightarrow> pystr \<Rightarrow> search_result list" where
  "add_text_highlighting env rs q =
     (let kws = extract_keywords env q
      in if kws = [] then rs else map (highlight_result env kws) rs)"

definition empty_search_result :: "pystr \<Rightarrow> search_response" where
  "empty_search_result q =
     \<lparr>success = True, response_query = q, response_results = [], total_results = 0,
      error = None\<rparr>"

definition failed_search_result :: "pystr \<Rightarrow> py_error \<Rightarrow> search_response" where
  "failed_search_result q e =
     \<lparr>success = False, response_query = q, response_results = [], total_results = 0,
      error = Some e\<rparr>"

text \<open>
  \<open>hybrid_search\<close>. \<open>t0\<close> is the clock when the call starts (search history, cache lookup),
  \<open>t1\<close> the clock when the response is stored in the cache. An exception inside the
  \<open>try\<close> block gives the failure response; the state changes made before it stay.
\<close>

definition rank_results :: "search_args \<Rightarrow> search_result list \<Rightarrow> search_result list" where
  \<comment> \<open>lines 112 to 121: threshold filter, deduplication, stable descending sort, truncation\<close>
  "rank_results a merged =
     (let filtered = filter (\<lambda>r. get_similarity r \<ge> similarity_threshold a) merged;
          unique = (if deduplicate a then deduplicate_results filtered else filtered);
          ordered = sort_key (\<lambda>x. - rank_key x) unique
      in py_prefix (n_results a) ordered)"

definition search_passes ::
  "retrieval_env \<Rightarrow> search_args \<Rightarrow> document list \<Rightarrow> RetrievalService \<Rightarrow>
   search_result list \<times> RetrievalService" where
  \<comment> \<open>lines 89 to 104: the semantic pass, then the keyword pass, results concatenated\<close>
  "search_passes env a candidate_documents s3 =
     (let candidate_doc_ids = map doc_id candidate_documents;
          (semantic_results, s4) =
            (if enable_semantic_search a
             then semantic_search env (search_query a) (n_results a * 2) candidate_doc_ids s3
             else ([], s3));
          (keyword_results, s5) =
            (if enable_keyword_search a
             then (keyword_search env (search_query a) (n_results a * 2) candidate_documents,
                   s4\<lparr>service_calls := service_calls s4 @
                         [KeywordScan (search_query a) (n_results a * 2)]\<rparr>)
             else ([], s4))
      in (semantic_results @ keyword_results, s5))"

definition fuse_passes :: "retrieval_env \<Rightarrow> search_args \<Rightarrow> search_result list \<Rightarrow> search_result list outcome" where
  \<comment> \<open>lines 106 to 110\<close>
  "fuse_passes env a found =
     (if enable_semantic_search a \<and> enable_keyword_search a
      then merge_search_results (str_hash env) found (keyword_weight a) (semantic_weight a)
      else Returns found)"

definition decorate_results ::
  "retrieval_env \<Rightarrow> search_args \<Rightarrow> document list \<Rightarrow> search_result list \<Rightarrow> search_result list" where
  \<comment> \<open>lines 123 to 128: document metadata, then highlighting\<close>
  "decorate_results env a candidate_documents ranked =
     (let enhanced = (if include_metadata a
                      then enhance_results_metadata ranked candidate_documents else ranked)
      in add_text_highlighting env enhanced (search_query a))"

definition success_response :: "pystr \<Rightarrow> search_result list \<Rightarrow> search_response" where
  "success_response q rs =
     \<lparr>success = True, response_query = q, response_results = rs,
      total_results = length rs, error = None\<rparr>"

definition cache_key_of :: "retrieval_env \<Rightarrow> search_args \<Rightarrow> string" where
  \<comment> \<open>\<open>_generate_cache_key(query, n_results, similarity_threshold, document_ids,
      document_types)\<close>\<close>
  "cache_key_of env a =
     md5_hexdigest env
       (search_query a, n_results a, similarity_threshold a, document_ids a, document_types a)"

definition search_uncached ::
  "retrieval_env \<Rightarrow> search_args \<Rightarrow> int \<Rightarrow> RetrievalService \<Rightarrow> search_response \<times> RetrievalService" where
  \<comment> \<open>lines 81 to 149: what \<open>hybrid_search\<close> does after a cache miss\<close>
  "search_uncached env a t1 s2 =
     (let candidate_documents = get_candidate_documents env a;
          s3 = s2\<lparr>service_calls := service_calls s2 @ [ListDocuments]\<rparr>
      in if candidate_documents = [] then (empty_search_result (search_query a), s3)
         else
           (case search_passes env a candidate_documents s3 of
              (found, s5) \<Rightarrow>
                (case fuse_passes env a found of
                   Raises e \<Rightarrow> (failed_search_result (search_query a) e, s5)
                 | Returns merged \<Rightarrow>
                     let response = success_response (search_query a)
                           (decorate_results env a candidate_documents (rank_results a merged))
                     in (response, cache_result (cache_key_of env a) response t1 s5))))"

definition hybrid_search ::
  "retrieval_env \<Rightarrow> search_args \<Rightarrow> int \<Rightarrow> int \<Rightarrow> RetrievalService \<Rightarrow>
   search_response \<times> RetrievalService" where
  "hybrid_search env a t0 t1 s0 =
     (let s1 = record_search_history (search_query a) t0 s0
      in case get_cached_result (cache_key_of env a) t0 s1 of
           (Some response, s2) \<Rightarrow> (response, s2)
         | (None, s2) \<Rightarrow> search_uncached env a t1 s2)"

subsection \<open>The search endpoint (api/retrieval.py)\<close>

datatype SearchMode = SEMANTIC | KEYWORD | HYBRID

record AdvancedSearchRequest =
  request_query :: pystr
  search_mode :: SearchMode
  request_n_results :: int
  request_similarity_threshold :: real
  request_keyword_weight :: real
  request_semantic_weight :: real
  request_document_ids :: "string list option"
  request_document_types :: "string list option"
  request_tags :: "string list option"
  date_from :: "int option"
  date_to :: "int option"
  request_include_metadata :: bool
  request_deduplicate :: bool

datatype 'a http = HTTPException nat | Response 'a

definition datetime_min :: int where
  "datetime_min = - 62135596800000000"

definition datetime_max :: int where
  "datetime_max = 253402300799999999"

definition keyword_enabled :: "AdvancedSearchRequest \<Rightarrow> bool" where
  \<comment> \<open>\<open>request.search_mode in [SearchMode.KEYWORD, SearchMode.HYBRID]\<close>\<close>
  "keyword_enabled request \<longleftrightarrow> search_mode request \<in> set [KEYWORD, HYBRID]"

definition semantic_enabled :: "AdvancedSearchRequest \<Rightarrow> bool" where
  \<comment> \<open>\<open>request.search_mode in [SearchMode.SEMANTIC, SearchMode.HYBRID]\<close>\<close>
  "semantic_enabled request \<longleftrightarrow> search_mode request \<in> set [SEMANTIC, HYBRID]"

definition search_args_of :: "AdvancedSearchRequest \<Rightarrow> search_args" where
  "search_args_of request =
     \<lparr>search_query = request_query request,
      n_results = request_n_results request,
      similarity_threshold = request_similarity_threshold request,
      document_ids = request_document_ids request,
      document_types = request_document_types request,
      date_range =
        (if date_from request \<noteq> None \<or> date_to request \<noteq> None
         then Some ((case date_from request of None \<Rightarrow> datetime_min | Some d \<Rightarrow> d),
                    (case date_to request of None \<Rightarrow> datetime_max | Some d \<Rightarrow> d))
         else None),
      tags = request_tags request,
      enable_keyword_search = keyword_enabled request,
      enable_semantic_search = semantic_enabled request,
      keyword_weight = request_keyword_weight request,
      semantic_weight = request_semantic_weight request,
      include_metadata = request_include_metadata request,
      deduplicate = request_deduplicate request\<rparr>"

definition valid_SearchResult :: "search_result \<Rightarrow> bool" where
  \<comment> \<open>the required fields of the response model \<open>SearchResult\<close>\<close>
  "valid_SearchResult r \<longleftrightarrow>
     result_text r \<noteq> None \<and> similarity_score r \<noteq> None \<and> document_id r \<noteq> None \<and>
     search_type r \<noteq> None"

definition advanced_search ::
  "retrieval_env \<Rightarrow> AdvancedSearchRequest \<Rightarrow> int \<Rightarrow> int \<Rightarrow> RetrievalService \<Rightarrow>
   search_response http \<times> RetrievalService" where
  "advanced_search env request t0 t1 s =
     (if search_mode request = HYBRID \<and>
         \<bar>request_keyword_weight request + request_semantic_weight request - 1\<bar> > 1 / 100
      then (HTTPException 400, s)
      else
        let (search_result, s') = hybrid_search env (search_args_of request) t0 t1 s
        in if \<not> success search_result then (HTTPException 500, s')
           else if list_all valid_SearchResult (response_results search_result)
           then (Response search_result, s')
           else (HTTPException 500, s'))"

subsection \<open>What is observed of a result list, and sample inputs\<close>

definition ranked_for :: "search_args \<Rightarrow> search_result list \<Rightarrow> bool" where
  \<comment> \<open>every similarity score reaches the threshold, the list descends by sort key and has
      at most \<open>n_results\<close> entries\<close>
  "ranked_for a rs \<longleftrightarrow>
     list_all (\<lambda>r. similarity_threshold a \<le> get_similarity r) rs \<and>
     sorted_wrt (\<lambda>x y. rank_key y \<le> rank_key x) rs \<and>
     int (length rs) \<le> n_results a"

text \<open>
  A one-document corpus: document \<open>d1\<close> is the 13 words \<open>rag a b \<dots> l\<close>, indexed as one
  chunk at distance 0.2 from the query \<open>rag\<close>. The keyword pass scores it
  \<open>1/13 \<times> (1 + 3/10) = 0.1\<close> and its only snippet is the whole text.
\<close>

definition sample_text :: pystr where
  "sample_text = ascii ''rag a b c d e f g h i j k l''"

definition sample_keyword_result :: search_result where
  "sample_keyword_result =
     \<lparr>result_text = Some sample_text, document_id = Some ''d1'',
      similarity_score = Some (1 / 10), search_type = Some ''keyword'',
      final_score = None, semantic_score = None, keyword_score = None,
      highlight_text = None, matched_keywords = None, document_metadata = None\<rparr>"

definition sample_semantic_result :: search_result where
  "sample_semantic_result =
     format_hit \<lparr>hit_text = sample_text, hit_document_id = Some ''d1'', hit_distance = 1 / 5\<rparr>"

definition sample_other_result :: search_result where
  \<comment> \<open>a keyword result from another document\<close>
  "sample_other_result =
     \<lparr>result_text = Some (ascii ''rag''), document_id = Some ''d2'',
      similarity_score = Some (1 / 2), search_type = Some ''keyword'',
      final_score = None, semantic_score = None, keyword_score = None,
      highlight_text = None, matched_keywords = None, document_metadata = None\<rparr>"

definition sample_found :: "search_result list" where
  "sample_found = [sample_semantic_result, sample_keyword_result, sample_other_result]"

definition sample_merged :: "search_result list" where
  "sample_merged =
     [sample_semantic_result
        \<lparr>final_score := Some (59 / 100), search_type := Some ''hybrid'',
         semantic_score := Some (4 / 5), keyword_score := Some (1 / 10)\<rparr>,
      sample_other_result\<lparr>final_score := Some (1 / 2)\<rparr>]"

definition sample_env :: retrieval_env where
  "sample_env =
     \<lparr>str_hash = (\<lambda>t. int (sum_list t)),
      md5_hexdigest = (\<lambda>k. ''0''),
      get_candidate_documents = (\<lambda>a. [\<lparr>doc_id = ''d1'', doc_info = []\<rparr>]),
      generate_embedding = (\<lambda>q. Returns (Some [1])),
      search_similar_chunks = (\<lambda>e n ids. Returns
        [\<lparr>hit_text = sample_text, hit_document_id = Some ''d1'', hit_distance = 1 / 5\<rparr>]),
      keyword_search = (\<lambda>q n docs. [sample_keyword_result]),
      extract_keywords = (\<lambda>q. [q]),
      highlight_keywords_in_text = (\<lambda>t kws. t),
      lower = (\<lambda>t. t)\<rparr>"

definition sample_args :: search_args where
  "sample_args =
     \<lparr>search_query = ascii ''rag'', n_results = 10, similarity_threshold = 7 / 10,
      document_ids = None, document_types = None, date_range = None, tags = None,
      enable_keyword_search = True, enable_semantic_search = True,
      keyword_weight = 3 / 10, semantic_weight = 7 / 10,
      include_metadata = True, deduplicate = True\<rparr>"

definition sample_request :: AdvancedSearchRequest where
  "sample_request =
     \<lparr>request_query = ascii ''rag'', search_mode = HYBRID, request_n_results = 10,
      request_similarity_threshold = 7 / 10,
      request_keyword_weight = 1 / 2, request_semantic_weight = 7 / 10,
      request_document_ids = None, request_document_types = None, request_tags = None,
      date_from = None, date_to = None,
      request_include_metadata = True, request_deduplicate = True\<rparr>"

definition sample_response :: search_response where
  "sample_response = empty_search_result (ascii ''rag'')"

definition cache_key_name :: "nat \<Rightarrow> string" where
  "cache_key_name i = replicate i (CHR ''k'')"

definition full_cache :: "(string \<times> cache_item) list" where
  \<comment> \<open>100 entries under distinct keys, all stored at time 0\<close>
  "full_cache =
     map (\<lambda>i. (cache_key_name i, \<lparr>item_result = sample_response, item_timestamp = 0\<rparr>)) [1..<101]"

definition full_service :: RetrievalService where
  "full_service = new_RetrievalService\<lparr>query_cache := full_cache\<rparr>"

definition one_entry_service :: RetrievalService where
  \<comment> \<open>one response cached under the key \<open>0\<close> at time 0\<close>
  "one_entry_service =
     new_RetrievalService
       \<lparr>query_cache := [(''0'', \<lparr>item_result = sample_response, item_timestamp = 0\<rparr>)]\<rparr>"

section \<open>Query analyzer (query_analyzer.py)\<close>

text \<open>
  What \<open>json.loads\<close> returns. The fields of a \<open>QueryAnalysis\<close> that
  \<open>_merge_analysis\<close> overwrites with values of the enhancement hold such values: the model
  class does not validate on assignment.
\<close>

datatype json =
    JNull
  | JBool bool
  | JInt int
  | JFloat real
  | JStr pystr
  | JList "json list"
  | JObj "(pystr \<times> json) list"

record QueryAnalysis =
  original_query :: pystr
  intent :: json
  query_keywords :: "json list"
  entities :: "json list"
  query_type :: json
  complexity_score :: real
  requires_context :: json
  suggested_retrieval_count :: int

text \<open>
  The library calls of the analyzer: the generation call (prompt built from the query; it
  returns the response text or raises), \<open>json.loads\<close> on a text that starts with a brace
  (an object, or \<open>None\<close> when it raises), the regular expressions \<open>[\w]+\<close> and those of
  \<open>entity_patterns\<close>, the order in which \<open>list(set(xs))\<close> enumerates, and \<open>float\<close> and
  \<open>int\<close> of a string.
\<close>

record qa_env =
  llm_acomplete :: "pystr \<Rightarrow> pystr outcome"
  json_loads :: "pystr \<Rightarrow> (pystr \<times> json) list option"
  word_tokens :: "pystr \<Rightarrow> pystr list"
  entity_matches :: "pystr \<Rightarrow> pystr list"
  set_order :: "json list \<Rightarrow> json list"
  parse_float :: "pystr \<Rightarrow> real option"
  parse_int :: "pystr \<Rightarrow> int option"

definition intent_patterns :: "(string \<times> pystr list) list" where
  \<comment> \<open>the dictionary of lines 24 to 31, in its order; each pattern by its code points\<close>
  "intent_patterns =
     [(''question'',
       [[20160, 20040, 26159], [22914, 20309], [24590, 20040], [20026, 20160, 20040],
        [21738, 37324], [35841], [20309, 26102], [63], [65311]]),
      (''search'',
       [[26597, 25214], [25628, 32034], [25214, 21040], [23547, 25214], [26816, 32034]]),
      (''summary'',
       [[24635, 32467], [27010, 25324], [25688, 35201], [24402, 32435], [26803, 29702]]),
      (''comparison'',
       [[27604, 36739], [23545, 27604], [21306, 21035], [24046, 24322], [30456, 21516],
        [19981, 21516]]),
      (''analysis'',
       [[20998, 26512], [35780, 20272], [35299, 37322], [35828, 26126], [38416, 36848]]),
      (''recommendation'',
       [[24314, 35758], [25512, 33616], [24847, 35265], [26041, 26696], [31574, 30053]])]"

definition re_search :: "pystr \<Rightarrow> pystr \<Rightarrow> bool" where
  \<comment> \<open>\<open>re.search(pattern, query, re.IGNORECASE)\<close> for the patterns above: each is a literal
      without cased characters, so it matches where it occurs in the query\<close>
  "re_search pattern q = contains pattern q"

fun match_patterns :: "json \<Rightarrow> pystr list \<Rightarrow> pystr \<Rightarrow> json \<Rightarrow> json" where
  \<comment> \<open>the inner loop of lines 115 to 118; the result is \<open>analysis.intent\<close> after it\<close>
  "match_patterns name [] q current = current"
| "match_patterns name (pattern # patterns) q current =
     (if re_search pattern q then name else match_patterns name patterns q current)"

fun recognise_intent :: "(string \<times> pystr list) list \<Rightarrow> pystr \<Rightarrow> json \<Rightarrow> json" where
  \<comment> \<open>the outer loop of lines 114 to 120, with its \<open>if analysis.intent == intent: break\<close>\<close>
  "recognise_intent [] q current = current"
| "recognise_intent ((name, patterns) # rest) q current =
     (let current' = match_patterns (JStr (ascii name)) patterns q current
      in if current' = JStr (ascii name) then current' else recognise_intent rest q current')"

definition stop_words :: "pystr list" where
  "stop_words =
     [[30340], [20102], [22312], [26159], [25105], [26377], [21644], [23601],
      [19981], [20154], [37117], [19968], [19968, 20010], [19978], [20063], [24456],
      [21040], [35828], [35201], [21435], [20320], [20250], [30528], [27809, 26377],
      [30475], [22909], [33258, 24049], [36825]]"

definition extract_keywords_simple :: "qa_env \<Rightarrow> pystr \<Rightarrow> json list" where
  "extract_keywords_simple env q =
     take 10 (map JStr (filter (\<lambda>w. length w > 1 \<and> w \<notin> set stop_words) (word_tokens env q)))"

definition complex_words :: "pystr list" where
  "complex_words =
     [[20998, 26512], [27604, 36739], [35780, 20272], [35299, 37322], [24635, 32467],
      [24402, 32435], [23545, 27604], [21306, 21035]]"

definition logical_words :: "pystr list" where
  "logical_words =
     [[24182, 19988], [25110, 32773], [20294, 26159], [28982, 32780], [22240, 27492],
      [25152, 20197], [22914, 26524], [37027, 20040]]"

definition assess_complexity :: "pystr \<Rightarrow> real" where
  "assess_complexity q =
     (let length_factor = min (real (length q) / 100) (3 / 10);
          question_marks = count_list q 63 + count_list q 65311;
          c1 = length_factor + min (real question_marks * (1 / 10)) (2 / 10);
          c2 = foldl (\<lambda>c w. if contains w q then c + 1 / 10 else c) c1 complex_words;
          c3 = foldl (\<lambda>c w. if contains w q then c + 15 / 100 else c) c2 logical_words
      in min c3 1)"



definition basic_analysis :: "qa_env \<Rightarrow> pystr \<Rightarrow> QueryAnalysis" where
  "basic_analysis env q =
     (let complexity = assess_complexity q
      in \<lparr>original_query = q,
          intent = recognise_intent intent_patterns q (JStr (ascii ''question'')),
          query_keywords = extract_keywords_simple env q,
          entities = set_order env (map JStr (entity_matches env q)),
          query_type = JStr (ascii ''factual''),
          complexity_score = complexity,
          requires_context = JBool True,
          suggested_retrieval_count =
            (if complexity > 8 / 10 then 8
             else if complexity > 6 / 10 then 6
             else if complexity > 4 / 10 then 4
             else 3)\<rparr>)"



















text \<open>
  The spec's wording of the intent rule, to compare with \<open>recognise_intent\<close>: the first
  category of the priority list that has a pattern matching the query, \<open>question\<close> when
  there is none.
\<close>

definition first_matching_intent :: "pystr \<Rightarrow> json" where
  "first_matching_intent q =
     (case find (\<lambda>(name, patterns). list_ex (\<lambda>p. re_search p q) patterns) intent_patterns of
        None \<Rightarrow> JStr (ascii ''question'')
      | Some (name, patterns) \<Rightarrow> JStr (ascii name))"

text \<open>Sample inputs of the analyzer.\<close>

definition summary_query :: pystr where
  \<comment> \<open>a six-character request for a summary of this document; it starts with the first
      pattern of the category \<open>summary\<close>\<close>
  "summary_query = [24635, 32467, 36825, 31687, 25991, 26723]"









section \<open>Streaming chat (rag_service.py)\<close>

definition get_recent_messages :: "string \<Rightarrow> nat \<Rightarrow> ConversationManager \<Rightarrow> ChatMessage list" where
  \<comment> \<open>\<open>conversation.messages[-limit:]\<close> for a positive limit, \<open>[]\<close> for an unknown id\<close>
  "get_recent_messages cid limit cm =
     (case get_conversation cid cm of
        None \<Rightarrow> []
      | Some conversation \<Rightarrow>
          if messages conversation = [] then [] else last_n limit (messages conversation))"

record ChatRequest =
  message :: pystr
  request_conversation_id :: "string option"
  enable_retrieval :: bool
  max_retrieved_chunks :: int
  chat_similarity_threshold :: real

text \<open>
  \<open>StreamingChatResponse\<close> as \<open>models/rag.py\<close> declares it: a conversation id, a chunk,
  \<open>is_final\<close> (default \<open>False\<close>), an optional retrieval context, the sources, and two
  optional fields that \<open>stream_chat\<close> never sets. It has no field \<open>is_complete\<close> and no
  field \<open>error_message\<close>: \<open>stream_chat\<close> passes both as keywords, the model ignores a
  keyword that names no field, and nothing sets \<open>is_final\<close>. The constructor below takes
  the keywords that \<open>stream_chat\<close> passes and keeps those that are fields.
\<close>

record StreamingChatResponse =
  response_conversation_id :: string
  chunk :: pystr
  is_final :: bool
  retrieval_context :: "search_result list option"
  sources_used :: "string list"
  total_tokens :: "int option"
  finish_reason :: "pystr option"

definition new_StreamingChatResponse ::
  "string \<Rightarrow> pystr \<Rightarrow> bool \<Rightarrow> search_result list option \<Rightarrow> string list \<Rightarrow> pystr option \<Rightarrow>
   StreamingChatResponse" where
  \<comment> \<open>keywords \<open>conversation_id\<close>, \<open>chunk\<close>, \<open>is_complete\<close>, \<open>retrieval_context\<close>,
      \<open>sources_used\<close>, \<open>error_message\<close>; the third and the last are dropped\<close>
  "new_StreamingChatResponse cid c is_complete ctx sources error_message =
     \<lparr>response_conversation_id = cid, chunk = c, is_final = False,
      retrieval_context = ctx, sources_used = sources,
      total_tokens = None, finish_reason = None\<rparr>"

text \<open>
  How the provider's stream ends: it is exhausted, or it raises. What the orchestrator
  calls: \<open>_retrieve_context\<close> (it catches every exception and returns \<open>None\<close>), the prompt
  builder, the provider (\<open>get_provider\<close> may raise before any increment; otherwise the
  increments and the end of the stream), \<open>_extract_sources\<close>, and \<open>str(e)\<close> of an exception.
\<close>

datatype stream_end = Completed | Failed py_error

record rag_env =
  retrieve_context :: "pystr \<Rightarrow> int \<Rightarrow> real \<Rightarrow> search_result list option"
  build_complete_prompt ::
    "pystr \<Rightarrow> search_result list option \<Rightarrow> ChatMessage list \<Rightarrow> pystr outcome"
  generate_stream :: "pystr \<Rightarrow> (pystr list \<times> stream_end) outcome"
  extract_sources :: "search_result list \<Rightarrow> string list outcome"
  exception_str :: "py_error \<Rightarrow> pystr"

definition generation_error_prefix :: pystr where
  \<comment> \<open>the code points of the literal of line 262, up to \<open>{str(e)}\<close>\<close>
  "generation_error_prefix =
     [29983, 25104, 22238, 31572, 26102, 20986, 29616, 38169, 35823, 58, 32]"

definition request_error_prefix :: pystr where
  \<comment> \<open>the code points of the literal of line 174, up to \<open>{str(e)}\<close>\<close>
  "request_error_prefix =
     [22788, 29702, 35831, 27714, 26102, 20986, 29616, 38169, 35823, 58, 32]"

definition stream_generate_response :: "rag_env \<Rightarrow> pystr \<Rightarrow> pystr list" where
  \<comment> \<open>what \<open>_stream_generate_response\<close> yields; its \<open>except\<close> yields a text and does not raise\<close>
  "stream_generate_response env prompt =
     (case generate_stream env prompt of
        Raises e \<Rightarrow> [generation_error_prefix @ exception_str env e]
      | Returns (chunks, Completed) \<Rightarrow> chunks
      | Returns (chunks, Failed e) \<Rightarrow> chunks @ [generation_error_prefix @ exception_str env e])"

definition error_increment :: "rag_env \<Rightarrow> string \<Rightarrow> py_error \<Rightarrow> StreamingChatResponse" where
  \<comment> \<open>the increment of lines 170 to 175\<close>
  "error_increment env cid e =
     new_StreamingChatResponse cid [] True None []
       (Some (request_error_prefix @ exception_str env e))"

definition chunk_increment ::
  "string \<Rightarrow> search_result list option \<Rightarrow> pystr \<Rightarrow> StreamingChatResponse" where
  \<comment> \<open>the increment of lines 147 to 152; the context goes with an empty chunk only\<close>
  "chunk_increment cid ctx c =
     new_StreamingChatResponse cid c False (if c = [] then ctx else None) [] None"

definition final_increment :: "string \<Rightarrow> string list \<Rightarrow> StreamingChatResponse" where
  \<comment> \<open>the increment of lines 155 to 160\<close>
  "final_increment cid sources = new_StreamingChatResponse cid [] True None sources None"

definition persist_turn ::
  "string \<Rightarrow> pystr \<Rightarrow> pystr \<Rightarrow> string \<Rightarrow> int \<Rightarrow> ConversationManager \<Rightarrow>
   bool outcome \<times> ConversationManager" where
  \<comment> \<open>lines 163 and 164: the user message, then the assistant message\<close>
  "persist_turn cid user_text full_response new_uuid now cm =
     (case add_message cid USER user_text None new_uuid now cm of
        (Raises e, cm1) \<Rightarrow> (Raises e, cm1)
      | (Returns u, cm1) \<Rightarrow> add_message cid ASSISTANT full_response None new_uuid now cm1)"

text \<open>
  \<open>stream_chat\<close>, read to its end by the caller: the increments it yields, in order, and
  the conversation manager afterwards. \<open>new_uuid\<close> is what \<open>uuid.uuid4()\<close> would give,
  \<open>now\<close> the clock.
\<close>

definition stream_chat ::
  "rag_env \<Rightarrow> ChatRequest \<Rightarrow> string \<Rightarrow> int \<Rightarrow> ConversationManager \<Rightarrow>
   StreamingChatResponse list \<times> ConversationManager" where
  "stream_chat env request new_uuid now cm =
     (let cid = (case request_conversation_id request of
                   None \<Rightarrow> new_uuid
                 | Some c \<Rightarrow> if c = [] then new_uuid else c);
          ctx =
            (if enable_retrieval request
             then retrieve_context env (message request) (max_retrieved_chunks request)
                    (chat_similarity_threshold request)
             else None);
          conversation_history = get_recent_messages cid 10 cm
      in case build_complete_prompt env (message request) ctx conversation_history of
           Raises e \<Rightarrow> ([error_increment env cid e], cm)
         | Returns prompt \<Rightarrow>
             let chunks = stream_generate_response env prompt;
                 full_response = concat chunks;
                 increments = map (chunk_increment cid ctx) chunks
             in (case (case ctx of
                         None \<Rightarrow> Returns []
                       | Some found \<Rightarrow> extract_sources env found) of
                   Raises e \<Rightarrow> (increments @ [error_increment env cid e], cm)
                 | Returns sources \<Rightarrow>
                     (case persist_turn cid (message request) full_response new_uuid now cm of
                        (Raises e, cm') \<Rightarrow>
                          (increments @ [final_increment cid sources, error_increment env cid e],
                           cm')
                      | (Returns u, cm') \<Rightarrow>
                          (increments @ [final_increment cid sources], cm'))))"

text \<open>
  A provider whose stream gives one increment and then fails, with retrieval switched off.
\<close>

definition failing_rag_env :: rag_env where
  "failing_rag_env =
     \<lparr>retrieve_context = (\<lambda>q n t. None),
      build_complete_prompt = (\<lambda>q ctx history. Returns q),
      generate_stream = (\<lambda>prompt. Returns ([ascii ''Hel''], Failed (ProviderError (ascii ''boom'')))),
      extract_sources = (\<lambda>ctx. Returns []),
      exception_str = (\<lambda>e. case e of ProviderError m \<Rightarrow> m | _ \<Rightarrow> [])\<rparr>"

definition sample_chat_request :: ChatRequest where
  "sample_chat_request =
     \<lparr>message = ascii ''hi'', request_conversation_id = Some ''c1'', enable_retrieval = False,
      max_retrieved_chunks = 5, chat_similarity_threshold = 7 / 10\<rparr>"

section \<open>Properties of the conversation manager\<close>

lemma update_metrics_all_snoc:
  "update_metrics_all (calls @ [(t, ok)]) cm = update_metrics t ok (update_metrics_all calls cm)"
  by (simp add: update_metrics_all_def)

lemma update_metrics_step:
  assumes "total_requests (metrics cm) = successful_requests (metrics cm) + failed_requests (metrics cm)"
    and "total_requests (metrics cm) = int n"
  shows "total_requests (metrics (update_metrics t ok cm)) =
           successful_requests (metrics (update_metrics t ok cm)) + failed_requests (metrics (update_metrics t ok cm))
       \<and> total_requests (metrics (update_metrics t ok cm)) = int (Suc n)
       \<and> average_response_time (metrics (update_metrics t ok cm)) =
           total_response_time (metrics (update_metrics t ok cm)) / real_of_int (total_requests (metrics (update_metrics t ok cm)))"
  using assms by (simp add: update_metrics_def Let_def)

lemma update_metrics_all_counts:
  assumes "metrics cm = new_RAGMetrics"
  shows "total_requests (metrics (update_metrics_all calls cm)) =
           successful_requests (metrics (update_metrics_all calls cm)) + failed_requests (metrics (update_metrics_all calls cm))
       \<and> total_requests (metrics (update_metrics_all calls cm)) = int (length calls)"
proof (induction calls rule: rev_induct)
  case Nil
  show ?case using assms by (simp add: update_metrics_all_def new_RAGMetrics_def)
next
  case (snoc c calls)
  obtain t ok where c: "c = (t, ok)" by (cases c)
  show ?case
    using update_metrics_step [of "update_metrics_all calls cm" "length calls" t ok] snoc
    by (simp add: c update_metrics_all_snoc)
qed

text \<open>
  C10. Starting from fresh metrics, after any non-empty sequence of \<open>update_metrics\<close> calls
  the total number of requests is the number of calls and the sum of the successful and the
  failed ones, and the average response time is the total response time divided by the
  total number of requests.
\<close>

theorem update_metrics_invariant:
  assumes "metrics cm = new_RAGMetrics" and "calls \<noteq> []"
  shows "total_requests (metrics (update_metrics_all calls cm)) =
           successful_requests (metrics (update_metrics_all calls cm)) + failed_requests (metrics (update_metrics_all calls cm))
       \<and> total_requests (metrics (update_metrics_all calls cm)) = int (length calls)
       \<and> average_response_time (metrics (update_metrics_all calls cm)) =
           total_response_time (metrics (update_metrics_all calls cm)) / real_of_int (total_requests (metrics (update_metrics_all calls cm)))"
proof -
  obtain cs c where calls: "calls = cs @ [c]"
    using assms(2) by (cases calls rule: rev_cases) auto
  obtain t ok where c: "c = (t, ok)" by (cases c)
  have pre: "total_requests (metrics (update_metrics_all cs cm)) =
           successful_requests (metrics (update_metrics_all cs cm)) + failed_requests (metrics (update_metrics_all cs cm))
       \<and> total_requests (metrics (update_metrics_all cs cm)) = int (length cs)"
    using update_metrics_all_counts [OF assms(1)] .
  show ?thesis
    using update_metrics_step [of "update_metrics_all cs cm" "length cs" t ok] pre
    by (simp add: calls c update_metrics_all_snoc)
qed

theorem update_metrics_invariant_witness:
  "metrics (new_ConversationManager 1000 24) = new_RAGMetrics \<and> [(3 / 2, True), (1 / 2, False)] \<noteq> []
   \<and> total_requests (metrics (update_metrics_all [(3 / 2, True), (1 / 2, False)] (new_ConversationManager 1000 24))) = 2
   \<and> successful_requests (metrics (update_metrics_all [(3 / 2, True), (1 / 2, False)] (new_ConversationManager 1000 24))) = 1
   \<and> failed_requests (metrics (update_metrics_all [(3 / 2, True), (1 / 2, False)] (new_ConversationManager 1000 24))) = 1
   \<and> average_response_time (metrics (update_metrics_all [(3 / 2, True), (1 / 2, False)] (new_ConversationManager 1000 24))) = 1"
  using update_metrics_invariant [of "new_ConversationManager 1000 24" "[(3 / 2, True), (1 / 2, False)]"]
  by (simp add: new_ConversationManager_def new_RAGMetrics_def update_metrics_all_def update_metrics_def Let_def)

lemma last_n_snoc: "0 < n \<Longrightarrow> last_n n (last_n n ys @ [x]) = last_n n (ys @ [x])"
proof (cases "length ys \<le> n")
  case True
  then show ?thesis by (simp add: last_n_def)
next
  case False
  assume "0 < n"
  with False have "Suc (length ys) - (length ys - n + n) + (length ys - n) = Suc (length ys) - n"
    by arith
  with False \<open>0 < n\<close> show ?thesis by (simp add: last_n_def)
qed

lemma last_n_short: "length xs \<le> n \<Longrightarrow> last_n n xs = xs"
  by (simp add: last_n_def)

lemma add_message_existing:
  assumes "map_of (conversations cm) cid = Some conv"
  shows "\<exists>cm'. add_message cid r c meta new_uuid now cm = (Returns True, cm')
     \<and> map_of (conversations cm') cid =
         Some (conv\<lparr>messages := last_n max_messages
                    (messages conv @ [request_message (r, c, meta, new_uuid, now)]),
               updated_at := now\<rparr>)"
  using assms
  by (simp add: add_message_def Let_def request_message_def update_conv last_n_short)

lemma add_message_fresh:
  assumes "map_of (conversations cm) cid = None" and "cid \<noteq> []"
  shows "\<exists>cm'. add_message cid r c meta new_uuid now cm = (Returns True, cm')
     \<and> map_of (conversations cm') cid =
         Some \<lparr>conversation_id = cid,
               messages = [request_message (r, c, meta, new_uuid, now)],
               created_at = now, updated_at = now\<rparr>"
  using assms
  by (simp add: add_message_def create_conversation_def Let_def request_message_def update_conv
      max_messages_def)

lemma last_n_append: "0 < n \<Longrightarrow> last_n n (last_n n xs @ ys) = last_n n (xs @ ys)"
proof (induction ys rule: rev_induct)
  case Nil
  then show ?case by (simp add: last_n_def)
next
  case (snoc y ys)
  have "last_n n (last_n n xs @ ys @ [y]) = last_n n (last_n n (last_n n xs @ ys) @ [y])"
    using snoc.prems last_n_snoc [of n "last_n n xs @ ys" y] by simp
  also have "\<dots> = last_n n (last_n n (xs @ ys) @ [y])"
    using snoc by simp
  also have "\<dots> = last_n n (xs @ ys @ [y])"
    using snoc.prems last_n_snoc [of n "xs @ ys" y] by simp
  finally show ?case .
qed

lemma add_messages_existing:
  assumes "map_of (conversations cm) cid = Some conv"
  shows "\<exists>cm' conv'. add_messages cid qs cm = (Returns True, cm')
     \<and> map_of (conversations cm') cid = Some conv'
     \<and> last_n max_messages (messages conv') =
         last_n max_messages (messages conv @ map request_message qs)
     \<and> (qs \<noteq> [] \<longrightarrow> length (messages conv') \<le> max_messages)"
  using assms
proof (induction qs arbitrary: cm conv)
  case Nil
  then show ?case by simp
next
  case (Cons q qs)
  obtain r c meta new_uuid now where q: "q = (r, c, meta, new_uuid, now)"
    by (cases q) auto
  define conv1 where "conv1 = conv\<lparr>messages := last_n max_messages
                    (messages conv @ [request_message q]), updated_at := now\<rparr>"
  obtain cm1 where step: "add_message cid r c meta new_uuid now cm = (Returns True, cm1)"
    and look: "map_of (conversations cm1) cid = Some conv1"
    using add_message_existing [OF Cons.prems, of r c meta new_uuid now]
    by (auto simp: conv1_def q)
  obtain cm' conv' where run: "add_messages cid qs cm1 = (Returns True, cm')"
    and look': "map_of (conversations cm') cid = Some conv'"
    and msgs: "last_n max_messages (messages conv') =
         last_n max_messages (messages conv1 @ map request_message qs)"
    and len: "qs \<noteq> [] \<longrightarrow> length (messages conv') \<le> max_messages"
    using Cons.IH [OF look] by blast
  have pos: "0 < max_messages" by (simp add: max_messages_def)
  have "last_n max_messages (messages conv1 @ map request_message qs) =
        last_n max_messages ((messages conv @ [request_message q]) @ map request_message qs)"
    unfolding conv1_def
    using last_n_append [OF pos, of "messages conv @ [request_message q]" "map request_message qs"]
    by simp
  with msgs have m: "last_n max_messages (messages conv') =
         last_n max_messages (messages conv @ map request_message (q # qs))"
    by simp
  have l: "length (messages conv') \<le> max_messages"
  proof (cases "qs = []")
    case True
    with run look look' have "conv' = conv1" by simp
    then show ?thesis by (simp add: conv1_def last_n_def)
  next
    case False
    with len show ?thesis by simp
  qed
  from step run look' m l show ?case by (simp add: q)
qed

text \<open>
  C6. Adding messages one after the other to a fresh conversation (any non-empty id) never
  raises and leaves the last 100 of them, in order: with more than 100 added the session
  holds exactly 100 messages, the oldest are the ones dropped and the last one added is the
  last element. The witness adds 105 messages: 100 remain, the first five are gone and
  number 105 is last.
\<close>

theorem add_messages_cap:
  assumes "cid \<noteq> []" and "get_conversation cid cm = None" and "qs \<noteq> []"
  shows "\<exists>cm' conv. add_messages cid qs cm = (Returns True, cm')
     \<and> get_conversation cid cm' = Some conv
     \<and> messages conv = drop (length qs - 100) (map request_message qs)
     \<and> (100 < length qs \<longrightarrow>
          length (messages conv) = 100 \<and> last (messages conv) = request_message (last qs))"
proof -
  obtain q qs' where qs: "qs = q # qs'" using assms(3) by (cases qs) auto
  obtain r c meta new_uuid now where q: "q = (r, c, meta, new_uuid, now)"
    by (cases q) auto
  define conv1 where "conv1 = \<lparr>conversation_id = cid, messages = [request_message q],
               created_at = now, updated_at = now\<rparr>"
  obtain cm1 where step: "add_message cid r c meta new_uuid now cm = (Returns True, cm1)"
    and look: "map_of (conversations cm1) cid = Some conv1"
    using add_message_fresh [of cm cid r c meta new_uuid now] assms(1,2)
    by (auto simp: conv1_def q get_conversation_def)
  obtain cm' conv where run: "add_messages cid qs' cm1 = (Returns True, cm')"
    and look': "map_of (conversations cm') cid = Some conv"
    and msgs: "last_n max_messages (messages conv) =
         last_n max_messages (messages conv1 @ map request_message qs')"
    and len: "qs' \<noteq> [] \<longrightarrow> length (messages conv) \<le> max_messages"
    using add_messages_existing [OF look] by blast
  have l: "length (messages conv) \<le> max_messages"
  proof (cases "qs' = []")
    case True
    with run look look' have "conv = conv1" by simp
    then show ?thesis by (simp add: conv1_def max_messages_def)
  next
    case False
    with len show ?thesis by simp
  qed
  have m: "messages conv = drop (length qs - 100) (map request_message qs)"
    using msgs last_n_short [OF l] by (simp add: conv1_def qs last_n_def max_messages_def)
  have "last (messages conv) = request_message (last qs)" if "100 < length qs"
    using that assms(3) unfolding m by (simp add: last_drop last_map)
  moreover have "length (messages conv) = 100" if "100 < length qs"
    using that unfolding m by simp
  ultimately show ?thesis
    using step run look' m by (auto simp: qs q get_conversation_def)
qed

theorem add_messages_cap_witness:
  "''c1'' \<noteq> [] \<and> get_conversation ''c1'' (new_ConversationManager 1000 24) = None
   \<and> map (\<lambda>i. (USER, [i], None, [], int i)) [1..<106] \<noteq> []
   \<and> (\<exists>cm' conv.
        add_messages ''c1'' (map (\<lambda>i. (USER, [i], None, [], int i)) [1..<106])
          (new_ConversationManager 1000 24) = (Returns True, cm')
        \<and> get_conversation ''c1'' cm' = Some conv
        \<and> length (messages conv) = 100
        \<and> map content (messages conv) = map (\<lambda>i. [i]) [6..<106]
        \<and> content (last (messages conv)) = [105])"
proof -
  let ?f = "\<lambda>i::nat. (USER, [i], None :: (string \<times> pystr) list option, [] :: string, int i)"
  let ?qs = "map ?f [1..<106]"
  let ?cm = "new_ConversationManager 1000 24"
  have fresh: "get_conversation ''c1'' ?cm = None"
    by (simp add: get_conversation_def new_ConversationManager_def)
  have ne: "?qs \<noteq> []" by simp
  have len: "length ?qs = 105" by simp
  obtain cm' conv where run: "add_messages ''c1'' ?qs ?cm = (Returns True, cm')"
    and look: "get_conversation ''c1'' cm' = Some conv"
    and msgs: "messages conv = drop (length ?qs - 100) (map request_message ?qs)"
    and cap: "100 < length ?qs \<longrightarrow>
          length (messages conv) = 100 \<and> last (messages conv) = request_message (last ?qs)"
    using add_messages_cap [of "''c1''" ?cm ?qs, OF _ fresh ne] by auto
  have c: "content \<circ> request_message \<circ> ?f = (\<lambda>i. [i])"
    by (rule ext) (simp add: request_message_def)
  have "map content (messages conv) = map (content \<circ> request_message \<circ> ?f) (drop 5 [1..<106])"
    unfolding msgs len by (simp only: drop_map map_map comp_assoc) simp
  then have kept: "map content (messages conv) = map (\<lambda>i. [i]) [6..<106]"
    unfolding c by (simp del: upt_rec_numeral)
  have "last ?qs = ?f 105" by (simp add: last_map del: upt_rec_numeral)
  with cap len have "length (messages conv) = 100" and "content (last (messages conv)) = [105]"
    by (simp_all add: request_message_def del: upt_rec_numeral)
  with run look kept fresh ne show ?thesis by blast
qed

section \<open>Properties of the retrieval service\<close>

lemma dedup_loop_idem: "dedup_loop seen (dedup_loop seen rs) = dedup_loop seen rs"
  by (induction rs arbitrary: seen) auto

text \<open>
  C9. Deduplicating a result list twice gives the same list as deduplicating it once.
\<close>

theorem deduplicate_results_idempotent:
  "deduplicate_results (deduplicate_results rs) = deduplicate_results rs"
  by (simp add: deduplicate_results_def dedup_loop_idem)

lemma map_of_group_append:
  "map_of (group_append k v groups) =
     (map_of groups)(k \<mapsto> (case map_of groups k of None \<Rightarrow> [v] | Some g \<Rightarrow> g @ [v]))"
  by (induction groups) (auto simp: fun_eq_iff)

lemma keys_group_append:
  "map fst (group_append k v groups) =
     (if k \<in> set (map fst groups) then map fst groups else map fst groups @ [k])"
  by (induction groups) force+

lemma distinct_group_append:
  "distinct (map fst groups) \<Longrightarrow> distinct (map fst (group_append k v groups))"
  by (simp add: keys_group_append)

lemma group_results_snoc:
  "group_results h (rs @ [r]) = group_append (result_key h r) r (group_results h rs)"
  by (simp add: group_results_def)

lemma distinct_group_results: "distinct (map fst (group_results h rs))"
  by (induction rs rule: rev_induct)
     (simp_all add: group_results_snoc distinct_group_append, simp add: group_results_def)

lemma map_of_group_results:
  "map_of (group_results h rs) k =
     (if filter (\<lambda>r. result_key h r = k) rs = [] then None
      else Some (filter (\<lambda>r. result_key h r = k) rs))"
proof (induction rs arbitrary: k rule: rev_induct)
  case Nil
  show ?case by (simp add: group_results_def)
next
  case (snoc r rs)
  show ?case
    by (simp add: group_results_snoc map_of_group_append snoc)
qed

lemma group_results_member:
  assumes "(k, g) \<in> set (group_results h rs)"
  shows "g = filter (\<lambda>r. result_key h r = k) rs \<and> g \<noteq> []"
proof -
  have "map_of (group_results h rs) k = Some g"
    using assms distinct_group_results by simp
  then show ?thesis
    by (simp add: map_of_group_results split: if_splits)
qed

lemma merge_groups_length:
  "merge_groups kw sw groups = Returns merged \<Longrightarrow> length merged = length groups"
  by (induction groups arbitrary: merged) (auto split: outcome.splits)

lemma merge_groups_nth:
  "merge_groups kw sw groups = Returns merged \<Longrightarrow> i < length groups \<Longrightarrow>
     merge_group kw sw (groups ! i) = Returns (merged ! i)"
proof (induction groups arbitrary: merged i)
  case Nil
  then show ?case by simp
next
  case (Cons g groups)
  then show ?case by (cases i) (auto split: outcome.splits)
qed

lemma merge_group_single:
  "merge_group kw sw [r] = Returns (r\<lparr>final_score := Some (get_similarity r)\<rparr>)"
  by (simp add: merge_group_def)

lemma merge_group_both:
  assumes "merge_group kw sw g = Returns m"
    and "find is_semantic g = Some s" and "find is_keyword g = Some k"
  shows "final_score m = Some (get_similarity s * sw + get_similarity k * kw) \<and>
         search_type m = Some ''hybrid''"
proof -
  have "s \<noteq> k"
    using assms(2,3) by (auto simp: find_Some_iff is_semantic_def is_keyword_def)
  moreover have "s \<in> set g" "k \<in> set g"
    using assms(2,3) by (auto simp: find_Some_iff)
  ultimately have "\<forall>r. g \<noteq> [r]" by auto
  then show ?thesis
    using assms by (auto simp: merge_group_def Let_def split: list.splits)
qed

lemma find_is_Some: "x \<in> set xs \<Longrightarrow> P x \<Longrightarrow> \<exists>y. find P xs = Some y"
  by (induction xs) auto

text \<open>
  C4. When \<open>_merge_search_results\<close> returns, it has one result per group, in the order of the
  groups, and a group is the list of the results that share a key. A group of one result
  gives that result with \<open>final_score\<close> set to its own similarity score and nothing else
  changed (so its search type is kept). A group that holds a semantic and a keyword result
  gives \<open>final_score = semantic_score * semantic_weight + keyword_score * keyword_weight\<close>,
  the scores being those of the first semantic and the first keyword result of the group,
  and search type \<open>hybrid\<close>.
\<close>

theorem merge_search_results_scores:
  assumes "merge_search_results h rs kw sw = Returns merged"
    and "i < length merged"
  shows "length merged = length (group_results h rs) \<and>
    snd (group_results h rs ! i) =
      filter (\<lambda>r. result_key h r = fst (group_results h rs ! i)) rs \<and>
    (\<forall>r. snd (group_results h rs ! i) = [r] \<longrightarrow>
         merged ! i = r\<lparr>final_score := Some (get_similarity r)\<rparr>) \<and>
    ((\<exists>r\<in>set (snd (group_results h rs ! i)). is_semantic r) \<and>
     (\<exists>r\<in>set (snd (group_results h rs ! i)). is_keyword r) \<longrightarrow>
       (\<exists>s k. find is_semantic (snd (group_results h rs ! i)) = Some s \<and>
              find is_keyword (snd (group_results h rs ! i)) = Some k \<and>
              final_score (merged ! i) = Some (get_similarity s * sw + get_similarity k * kw) \<and>
              search_type (merged ! i) = Some ''hybrid''))"
proof -
  let ?groups = "group_results h rs"
  let ?g = "snd (?groups ! i)"
  have run: "merge_groups kw sw (map snd ?groups) = Returns merged"
    using assms(1) by (simp add: merge_search_results_def)
  have len: "length merged = length ?groups"
    using merge_groups_length [OF run] by simp
  have i: "i < length ?groups" using assms(2) len by simp
  have mem: "(fst (?groups ! i), ?g) \<in> set ?groups"
    using i by (metis nth_mem prod.collapse)
  have grp: "?g = filter (\<lambda>r. result_key h r = fst (?groups ! i)) rs"
    using group_results_member [OF mem] by simp
  have m: "merge_group kw sw ?g = Returns (merged ! i)"
    using merge_groups_nth [OF run, of i] i by simp
  have single: "\<forall>r. ?g = [r] \<longrightarrow> merged ! i = r\<lparr>final_score := Some (get_similarity r)\<rparr>"
    using m by (auto simp: merge_group_single)
  have both: "\<exists>s k. find is_semantic ?g = Some s \<and> find is_keyword ?g = Some k \<and>
              final_score (merged ! i) = Some (get_similarity s * sw + get_similarity k * kw) \<and>
              search_type (merged ! i) = Some ''hybrid''"
    if hs: "\<exists>r\<in>set ?g. is_semantic r" and hk: "\<exists>r\<in>set ?g. is_keyword r"
  proof -
    obtain s where s: "find is_semantic ?g = Some s" using find_is_Some hs by metis
    obtain k where k: "find is_keyword ?g = Some k" using find_is_Some hk by metis
    show ?thesis using merge_group_both [OF m s k] s k by blast
  qed
  show ?thesis using len grp single both by blast
qed

lemma sample_groups:
  "group_results (\<lambda>t. int (sum_list t)) sample_found =
     [((''d1'', 1928), [sample_semantic_result, sample_keyword_result]),
      ((''d2'', 314), [sample_other_result])]"
  by (simp add: group_results_def sample_found_def result_key_def get_text_def
      sample_semantic_result_def format_hit_def sample_keyword_result_def
      sample_other_result_def sample_text_def ascii_def)

lemma sample_merge:
  "merge_search_results (\<lambda>t. int (sum_list t)) sample_found (3 / 10) (7 / 10) =
     Returns sample_merged"
  by (simp add: merge_search_results_def sample_groups merge_group_def Let_def
      is_semantic_def is_keyword_def get_similarity_def sample_merged_def
      sample_semantic_result_def format_hit_def sample_keyword_result_def
      sample_other_result_def)

theorem merge_search_results_scores_witness:
  "merge_search_results (\<lambda>t. int (sum_list t)) sample_found (3 / 10) (7 / 10) =
     Returns sample_merged \<and>
   length sample_merged = 2 \<and>
   final_score (sample_merged ! 0) = Some (59 / 100) \<and>
   search_type (sample_merged ! 0) = Some ''hybrid'' \<and>
   final_score (sample_merged ! 1) = Some (1 / 2) \<and>
   search_type (sample_merged ! 1) = Some ''keyword''"
proof -
  have len: "length sample_merged = 2" by (simp add: sample_merged_def)
  have i0: "0 < length sample_merged" and i1: "1 < length sample_merged"
    using len by simp_all
  have fs: "find is_semantic [sample_semantic_result, sample_keyword_result] =
      Some sample_semantic_result"
    by (simp add: is_semantic_def sample_semantic_result_def format_hit_def)
  have fk: "find is_keyword [sample_semantic_result, sample_keyword_result] =
      Some sample_keyword_result"
    by (simp add: is_keyword_def sample_semantic_result_def format_hit_def
        sample_keyword_result_def)
  have ss: "is_semantic sample_semantic_result" and kk: "is_keyword sample_keyword_result"
    by (simp_all add: is_semantic_def is_keyword_def sample_semantic_result_def format_hit_def
        sample_keyword_result_def)
  have both: "(\<exists>r\<in>set [sample_semantic_result, sample_keyword_result]. is_semantic r) \<and>
      (\<exists>r\<in>set [sample_semantic_result, sample_keyword_result]. is_keyword r)"
    using ss kk by simp
  have "\<exists>s k. find is_semantic [sample_semantic_result, sample_keyword_result] = Some s \<and>
      find is_keyword [sample_semantic_result, sample_keyword_result] = Some k \<and>
      final_score (sample_merged ! 0) =
        Some (get_similarity s * (7 / 10) + get_similarity k * (3 / 10)) \<and>
      search_type (sample_merged ! 0) = Some ''hybrid''"
    using merge_search_results_scores [OF sample_merge i0] both
    unfolding sample_groups nth_Cons_0 snd_conv fst_conv by blast
  then have "final_score (sample_merged ! 0) =
        Some (get_similarity sample_semantic_result * (7 / 10) +
              get_similarity sample_keyword_result * (3 / 10)) \<and>
      search_type (sample_merged ! 0) = Some ''hybrid''"
    unfolding fs fk by simp
  then have "final_score (sample_merged ! 0) = Some (59 / 100) \<and>
        search_type (sample_merged ! 0) = Some ''hybrid''"
    by (simp add: get_similarity_def sample_semantic_result_def format_hit_def
        sample_keyword_result_def)
  moreover have "sample_merged ! 1 = sample_other_result\<lparr>final_score := Some (1 / 2)\<rparr>"
    by (simp add: sample_merged_def)
  ultimately show ?thesis
    using sample_merge len by (simp add: sample_other_result_def)
qed

lemma ascii_rag: "ascii ''rag'' = [114, 97, 103]"
  by (simp add: ascii_def)


lemma sorted_desc_sort_key:
  "sorted_wrt (\<lambda>x y. rank_key y \<le> rank_key x) (sort_key (\<lambda>x. - rank_key x) rs)"
proof -
  have "sorted (map (\<lambda>x. - rank_key x) (sort_key (\<lambda>x. - rank_key x) rs))"
    by (rule sorted_sort_key)
  then show ?thesis by (simp add: sorted_map)
qed

lemma set_dedup_loop: "set (dedup_loop seen rs) \<subseteq> set rs"
  by (induction rs arbitrary: seen) auto

lemma length_dedup_loop: "length (dedup_loop seen rs) \<le> length rs"
  by (induction rs arbitrary: seen) (auto simp: le_SucI)

lemma set_py_prefix: "set (py_prefix n xs) \<subseteq> set xs"
  by (auto simp: py_prefix_def dest: in_set_takeD)

lemma sorted_wrt_py_prefix: "sorted_wrt P xs \<Longrightarrow> sorted_wrt P (py_prefix n xs)"
  by (simp add: py_prefix_def sorted_wrt_take)

lemma length_py_prefix: "0 \<le> n \<Longrightarrow> int (length (py_prefix n xs)) \<le> n"
  by (simp add: py_prefix_def)

lemma ranked_for_rank_results:
  assumes "0 \<le> n_results a"
  shows "ranked_for a (rank_results a merged)"
proof -
  let ?f = "filter (\<lambda>r. get_similarity r \<ge> similarity_threshold a) merged"
  let ?u = "if deduplicate a then deduplicate_results ?f else ?f"
  let ?o = "sort_key (\<lambda>x. - rank_key x) ?u"
  have r: "rank_results a merged = py_prefix (n_results a) ?o"
    by (simp add: rank_results_def Let_def)
  have "set ?u \<subseteq> set ?f"
    using set_dedup_loop [of "{}" ?f] by (simp add: deduplicate_results_def)
  then have "set (py_prefix (n_results a) ?o) \<subseteq> set ?f"
    using set_py_prefix [of "n_results a" ?o] by auto
  then have thr: "list_all (\<lambda>r. similarity_threshold a \<le> get_similarity r)
      (py_prefix (n_results a) ?o)"
    by (auto simp: list_all_iff)
  have srt: "sorted_wrt (\<lambda>x y. rank_key y \<le> rank_key x) (py_prefix (n_results a) ?o)"
    by (rule sorted_wrt_py_prefix) (rule sorted_desc_sort_key)
  show ?thesis
    unfolding ranked_for_def r
    using thr srt length_py_prefix [OF assms] by blast
qed

lemma ranked_for_map:
  assumes "ranked_for a rs"
    and "\<And>r. get_similarity (f r) = get_similarity r"
    and "\<And>r. rank_key (f r) = rank_key r"
  shows "ranked_for a (map f rs)"
  using assms by (simp add: ranked_for_def list_all_iff sorted_wrt_map)

lemma ranked_for_enhance:
  "ranked_for a rs \<Longrightarrow> ranked_for a (enhance_results_metadata rs docs)"
  unfolding enhance_results_metadata_def Let_def
  by (rule ranked_for_map)
     (auto simp: get_similarity_def rank_key_def split: option.splits)

lemma highlight_result_scores:
  "similarity_score (highlight_result env kws r) = similarity_score r \<and>
   final_score (highlight_result env kws r) = final_score r"
  by (simp add: highlight_result_def Let_def)

lemma get_similarity_highlight:
  "get_similarity (highlight_result env kws r) = get_similarity r"
  by (simp add: get_similarity_def highlight_result_scores)

lemma rank_key_highlight: "rank_key (highlight_result env kws r) = rank_key r"
  by (cases "final_score r")
     (simp_all add: rank_key_def highlight_result_scores get_similarity_highlight)

lemma ranked_for_highlight:
  "ranked_for a rs \<Longrightarrow> ranked_for a (add_text_highlighting env rs q)"
proof (cases "extract_keywords env q = []")
  case True
  then show "ranked_for a rs \<Longrightarrow> ?thesis" by (simp add: add_text_highlighting_def)
next
  case False
  assume "ranked_for a rs"
  then have "ranked_for a (map (highlight_result env (extract_keywords env q)) rs)"
    by (rule ranked_for_map)
       (simp_all add: get_similarity_highlight rank_key_highlight)
  with False show ?thesis by (simp add: add_text_highlighting_def)
qed

lemma ranked_for_Nil: "0 \<le> n_results a \<Longrightarrow> ranked_for a []"
  by (simp add: ranked_for_def)

lemma update_same_key:
  "(k, x) \<in> set (AList.update k v xs) \<Longrightarrow> x = v \<or> (k, x) \<in> set xs"
  by (induction xs) (auto split: if_splits)

lemma delete_subset: "(k, x) \<in> set (AList.delete k' xs) \<Longrightarrow> (k, x) \<in> set xs"
  by (auto simp: AList.delete_eq)

lemma cache_result_entries:
  assumes "(k, item) \<in> set (query_cache (cache_result k response now s))"
  shows "item_result item = response \<or> (k, item) \<in> set (query_cache s)"
proof -
  let ?c = "AList.update k \<lparr>item_result = response, item_timestamp = now\<rparr> (query_cache s)"
  have "(k, item) \<in> set ?c"
    using assms by (auto simp: cache_result_def Let_def split: if_splits)
  then have "item = \<lparr>item_result = response, item_timestamp = now\<rparr> \<or>
      (k, item) \<in> set (query_cache s)"
    by (rule update_same_key)
  then show ?thesis by auto
qed

lemma get_cached_result_entries:
  "(k, item) \<in> set (query_cache (snd (get_cached_result k' now s))) \<Longrightarrow>
     (k, item) \<in> set (query_cache s)"
  by (auto simp: get_cached_result_def split: option.splits if_splits dest: delete_subset)

lemma get_cached_result_hit:
  "get_cached_result k now s = (Some response, s') \<Longrightarrow>
     s' = s \<and> (\<exists>item. (k, item) \<in> set (query_cache s) \<and> item_result item = response)"
  by (auto simp: get_cached_result_def split: option.splits if_splits dest: map_of_SomeD)

lemma query_cache_record_history [simp]:
  "query_cache (record_search_history q now s) = query_cache s"
  by (simp add: record_search_history_def Let_def)

lemma semantic_search_cache [simp]:
  "query_cache (snd (semantic_search env q n ids s)) = query_cache s"
  by (simp add: semantic_search_def Let_def split: outcome.splits option.splits)

lemma search_passes_cache [simp]:
  "query_cache (snd (search_passes env a docs s)) = query_cache s"
  by (simp add: search_passes_def Let_def split_beta)

lemma ranked_for_decorate:
  "ranked_for a rs \<Longrightarrow> ranked_for a (decorate_results env a docs rs)"
  by (simp add: decorate_results_def Let_def ranked_for_enhance ranked_for_highlight)

lemma search_uncached_ranked:
  assumes run: "search_uncached env a t1 s = (response, s')"
    and n: "0 \<le> n_results a"
    and cache: "\<forall>item. (cache_key_of env a, item) \<in> set (query_cache s) \<longrightarrow>
                  ranked_for a (response_results (item_result item))"
  shows "ranked_for a (response_results response) \<and>
         (\<forall>item. (cache_key_of env a, item) \<in> set (query_cache s') \<longrightarrow>
                  ranked_for a (response_results (item_result item)))"
proof -
  let ?docs = "get_candidate_documents env a"
  let ?s3 = "s\<lparr>service_calls := service_calls s @ [ListDocuments]\<rparr>"
  show ?thesis
  proof (cases "?docs = []")
    case True
    then have "response = empty_search_result (search_query a)" "s' = ?s3"
      using run by (simp_all add: search_uncached_def Let_def)
    then show ?thesis using cache n by (simp add: empty_search_result_def ranked_for_Nil)
  next
    case False
    obtain found s5 where passes: "search_passes env a ?docs ?s3 = (found, s5)"
      by (cases "search_passes env a ?docs ?s3")
    have q5: "query_cache s5 = query_cache s"
      using search_passes_cache [of env a ?docs ?s3] passes by simp
    show ?thesis
    proof (cases "fuse_passes env a found")
      case (Raises e)
      then have "response = failed_search_result (search_query a) e" "s' = s5"
        using run False passes by (simp_all add: search_uncached_def Let_def)
      then show ?thesis using cache q5 n by (simp add: failed_search_result_def ranked_for_Nil)
    next
      case (Returns merged)
      let ?rs = "decorate_results env a ?docs (rank_results a merged)"
      let ?resp = "success_response (search_query a) ?rs"
      have r: "response = ?resp" "s' = cache_result (cache_key_of env a) ?resp t1 s5"
        using run False passes Returns by (auto simp: search_uncached_def Let_def)
      have ok: "ranked_for a ?rs"
        using ranked_for_rank_results [OF n, of merged] by (rule ranked_for_decorate)
      have "ranked_for a (response_results (item_result item))"
        if "(cache_key_of env a, item) \<in> set (query_cache s')" for item
        using cache_result_entries [of "cache_key_of env a" item ?resp t1 s5] that r cache q5 ok
        by (auto simp: success_response_def)
      then show ?thesis using r ok by (simp add: success_response_def)
    qed
  qed
qed

text \<open>
  C1, amended. For a non-negative \<open>n_results\<close>, every result that \<open>hybrid_search\<close> returns has a
  similarity score of at least the threshold, and the list descends by \<open>final_score\<close> (by the
  similarity score where there is none) and has at most \<open>n_results\<close> entries. A response
  taken from the cache is returned as it was stored, so the property is asked of what the
  cache holds under the call's key; the call leaves the cache with that property again.
\<close>

theorem hybrid_search_ranked:
  assumes run: "hybrid_search env a t0 t1 s = (response, s')"
    and n: "0 \<le> n_results a"
    and cache: "\<forall>item. (cache_key_of env a, item) \<in> set (query_cache s) \<longrightarrow>
                  ranked_for a (response_results (item_result item))"
  shows "ranked_for a (response_results response) \<and>
         (\<forall>item. (cache_key_of env a, item) \<in> set (query_cache s') \<longrightarrow>
                  ranked_for a (response_results (item_result item)))"
proof -
  let ?key = "cache_key_of env a"
  let ?s1 = "record_search_history (search_query a) t0 s"
  obtain cached s2 where look: "get_cached_result ?key t0 ?s1 = (cached, s2)"
    by (cases "get_cached_result ?key t0 ?s1")
  have c2: "\<forall>item. (?key, item) \<in> set (query_cache s2) \<longrightarrow>
                  ranked_for a (response_results (item_result item))"
    using cache get_cached_result_entries [of ?key _ ?key t0 ?s1] look by auto
  show ?thesis
  proof (cases cached)
    case (Some r)
    then have "response = r" "s' = s2"
      using run look by (simp_all add: hybrid_search_def Let_def)
    moreover have "\<exists>item. (?key, item) \<in> set (query_cache s) \<and> item_result item = r"
      using get_cached_result_hit [of ?key t0 ?s1 r s2] look Some by simp
    ultimately show ?thesis using cache c2 by auto
  next
    case None
    then have "search_uncached env a t1 s2 = (response, s')"
      using run look by (simp add: hybrid_search_def Let_def)
    then show ?thesis using n c2 by (rule search_uncached_ranked)
  qed
qed

lemma sample_passes:
  "search_passes sample_env sample_args [\<lparr>doc_id = ''d1'', doc_info = []\<rparr>] s =
     ([format_hit \<lparr>hit_text = sample_text, hit_document_id = Some ''d1'', hit_distance = 1 / 5\<rparr>,
       sample_keyword_result],
      s\<lparr>service_calls := service_calls s @
           [GenerateEmbedding (ascii ''rag''), SearchSimilarChunks 20 [''d1''],
            KeywordScan (ascii ''rag'') 20]\<rparr>)"
  by (simp add: search_passes_def sample_env_def sample_args_def semantic_search_def Let_def)

lemma sample_fuse:
  "fuse_passes sample_env sample_args
     [format_hit \<lparr>hit_text = sample_text, hit_document_id = Some ''d1'', hit_distance = 1 / 5\<rparr>,
       sample_keyword_result] =
   Returns [(format_hit \<lparr>hit_text = sample_text, hit_document_id = Some ''d1'', hit_distance = 1 / 5\<rparr>)
      \<lparr>final_score := Some (59 / 100), search_type := Some ''hybrid'',
       semantic_score := Some (4 / 5), keyword_score := Some (1 / 10)\<rparr>]"
  by (simp add: fuse_passes_def sample_env_def sample_args_def merge_search_results_def
      group_results_def result_key_def format_hit_def sample_keyword_result_def get_text_def
      merge_group_def is_semantic_def is_keyword_def get_similarity_def Let_def)

lemma sample_rank:
  "rank_results sample_args
     [(format_hit \<lparr>hit_text = sample_text, hit_document_id = Some ''d1'', hit_distance = 1 / 5\<rparr>)
      \<lparr>final_score := Some (59 / 100), search_type := Some ''hybrid'',
       semantic_score := Some (4 / 5), keyword_score := Some (1 / 10)\<rparr>] =
     [(format_hit \<lparr>hit_text = sample_text, hit_document_id = Some ''d1'', hit_distance = 1 / 5\<rparr>)
      \<lparr>final_score := Some (59 / 100), search_type := Some ''hybrid'',
       semantic_score := Some (4 / 5), keyword_score := Some (1 / 10)\<rparr>]"
  by (simp add: rank_results_def sample_args_def format_hit_def get_similarity_def
      deduplicate_results_def py_prefix_def Let_def)


lemma final_score_enhance:
  "map final_score (enhance_results_metadata rs docs) = map final_score rs"
  by (simp add: enhance_results_metadata_def Let_def comp_def split: option.splits cong: map_cong)

lemma final_score_highlighting:
  "map final_score (add_text_highlighting env rs q) = map final_score rs"
  by (simp add: add_text_highlighting_def Let_def comp_def highlight_result_scores)

lemma final_score_decorate:
  "map final_score (decorate_results env a docs rs) = map final_score rs"
  by (simp add: decorate_results_def Let_def final_score_enhance final_score_highlighting)

lemma sample_uncached:
  "map final_score (response_results (fst (search_uncached sample_env sample_args t1 s))) =
     [Some (59 / 100)] \<and> success (fst (search_uncached sample_env sample_args t1 s))"
proof -
  have docs: "get_candidate_documents sample_env sample_args = [\<lparr>doc_id = ''d1'', doc_info = []\<rparr>]"
    by (simp add: sample_env_def)
  show ?thesis
    by (simp add: search_uncached_def docs sample_passes sample_fuse sample_rank Let_def
        success_response_def final_score_decorate)
qed

text \<open>
  C1, as stated, fails: the threshold filter reads \<open>similarity_score\<close>, not \<open>final_score\<close>.
  On the sample corpus with the default weights 0.3 and 0.7 and threshold 0.7, the chunk
  found by both passes (similarity 0.8, keyword score 0.1) is returned with final score 0.59.
\<close>

theorem hybrid_search_final_score_counterexample:
  "success (fst (hybrid_search sample_env sample_args 0 0 new_RetrievalService)) \<and>
   map final_score
     (response_results (fst (hybrid_search sample_env sample_args 0 0 new_RetrievalService))) =
     [Some (59 / 100)] \<and>
   59 / 100 < similarity_threshold sample_args"
proof -
  have "hybrid_search sample_env sample_args 0 0 new_RetrievalService =
        search_uncached sample_env sample_args 0
          (record_search_history (search_query sample_args) 0 new_RetrievalService)"
    by (simp add: hybrid_search_def get_cached_result_def record_search_history_def
        new_RetrievalService_def Let_def)
  then show ?thesis
    using sample_uncached by (simp add: sample_args_def)
qed

theorem hybrid_search_ranked_witness:
  "0 \<le> n_results sample_args \<and> query_cache new_RetrievalService = [] \<and>
   ranked_for sample_args
     (response_results (fst (hybrid_search sample_env sample_args 0 0 new_RetrievalService)))"
proof -
  obtain response s' where run:
    "hybrid_search sample_env sample_args 0 0 new_RetrievalService = (response, s')"
    by (cases "hybrid_search sample_env sample_args 0 0 new_RetrievalService")
  have n: "0 \<le> n_results sample_args" by (simp add: sample_args_def)
  have c: "query_cache new_RetrievalService = []" by (simp add: new_RetrievalService_def)
  have "ranked_for sample_args (response_results response)"
    using hybrid_search_ranked [OF run n] c by simp
  with run n c show ?thesis by simp
qed

lemma search_history_get_cached [simp]:
  "search_history (snd (get_cached_result k now s)) = search_history s"
  by (simp add: get_cached_result_def split: option.splits)

lemma search_history_semantic [simp]:
  "search_history (snd (semantic_search env q n ids s)) = search_history s"
  by (simp add: semantic_search_def Let_def split: outcome.splits option.splits)

lemma search_history_passes [simp]:
  "search_history (snd (search_passes env a docs s)) = search_history s"
  by (simp add: search_passes_def Let_def split_beta)

lemma search_history_cache_result [simp]:
  "search_history (cache_result k r now s) = search_history s"
  by (simp add: cache_result_def Let_def)

lemma search_history_uncached [simp]:
  "search_history (snd (search_uncached env a t1 s)) = search_history s"
  by (simp add: search_uncached_def Let_def split_beta split: outcome.splits)

lemma search_history_hybrid:
  "search_history (snd (hybrid_search env a t0 t1 s)) =
     search_history (record_search_history (search_query a) t0 s)"
proof -
  let ?s1 = "record_search_history (search_query a) t0 s"
  obtain c s2 where look: "get_cached_result (cache_key_of env a) t0 ?s1 = (c, s2)"
    by (cases "get_cached_result (cache_key_of env a) t0 ?s1")
  then have "search_history s2 = search_history ?s1"
    using search_history_get_cached [of "cache_key_of env a" t0 ?s1] by simp
  then show ?thesis
    using look by (cases c) (simp_all add: hybrid_search_def Let_def)
qed

lemma record_search_history_changes:
  "search_history (record_search_history q now s) \<noteq> search_history s"
proof -
  have "length (search_history (record_search_history q now s)) \<noteq> length (search_history s)"
    by (simp add: record_search_history_def Let_def last_n_def)
  then show ?thesis by metis
qed

text \<open>
  C2. A search request with both modes enabled whose weights are off by more than 0.01
  from a sum of 1 is answered with HTTP 400 and the service state is untouched: no entry in
  the search history, no change of the cache, no call to the document store, the embedding
  provider or the index. Any run of \<open>hybrid_search\<close> would have changed the state.
\<close>

theorem advanced_search_rejects_weights:
  assumes "keyword_enabled request" and "semantic_enabled request"
    and "\<bar>request_keyword_weight request + request_semantic_weight request - 1\<bar> > 1 / 100"
  shows "advanced_search env request t0 t1 s = (HTTPException 400, s) \<and>
         snd (hybrid_search env a t0 t1 s) \<noteq> s"
proof -
  have "search_mode request = HYBRID"
    using assms(1,2) by (cases "search_mode request") (simp_all add: keyword_enabled_def semantic_enabled_def)
  then have "advanced_search env request t0 t1 s = (HTTPException 400, s)"
    using assms(3) by (simp add: advanced_search_def)
  moreover have "snd (hybrid_search env a t0 t1 s) \<noteq> s"
    using search_history_hybrid [of env a t0 t1 s] record_search_history_changes [of "search_query a" t0 s]
    by auto
  ultimately show ?thesis by simp
qed

theorem advanced_search_rejects_weights_witness:
  "keyword_enabled sample_request \<and> semantic_enabled sample_request \<and>
   \<bar>request_keyword_weight sample_request + request_semantic_weight sample_request - 1\<bar> > 1 / 100 \<and>
   advanced_search sample_env sample_request 0 0 new_RetrievalService =
     (HTTPException 400, new_RetrievalService)"
proof -
  have k: "keyword_enabled sample_request" and m: "semantic_enabled sample_request"
    by (simp_all add: keyword_enabled_def semantic_enabled_def sample_request_def)
  have w: "\<bar>request_keyword_weight sample_request + request_semantic_weight sample_request - 1\<bar>
      > 1 / 100"
    by (simp add: sample_request_def)
  show ?thesis
    using advanced_search_rejects_weights [OF k m w, of sample_env 0 0 new_RetrievalService]
      k m w by simp
qed

lemma update_fresh: "k \<notin> fst ` set xs \<Longrightarrow> AList.update k v xs = xs @ [(k, v)]"
  by (induction xs) auto

lemma new_key_fresh: "''new'' \<notin> fst ` set full_cache"
  by (auto simp: full_cache_def cache_key_name_def Cons_replicate_eq)

text \<open>
  C8, as stated, fails: \<open>_cache_result\<close> only removes expired entries. A cache of 100 entries
  stored at time 0 holds 101 entries after one more insertion at time 0.
\<close>

theorem cache_exceeds_capacity_counterexample:
  "length (query_cache (cache_result ''new'' sample_response 0 full_service)) = 101"
proof -
  let ?new = "\<lparr>item_result = sample_response, item_timestamp = 0\<rparr>"
  have u: "AList.update ''new'' ?new full_cache = full_cache @ [(''new'', ?new)]"
    using new_key_fresh by (rule update_fresh)
  have len: "length full_cache = 100" by (simp add: full_cache_def)
  have keep: "filter (\<lambda>(key, item). \<not> 300000000 < - item_timestamp item) full_cache =
      full_cache"
    by (rule filter_True) (auto simp: full_cache_def)
  show ?thesis
    by (simp add: cache_result_def full_service_def new_RetrievalService_def u len keep Let_def
        timedelta_seconds_def)
qed

text \<open>
  C8, amended. With the time to live of 300 seconds, a lookup returns the stored response
  exactly when the entry is less than 300 seconds old, and an entry it does not return is
  gone after the lookup. After an insertion that brings the cache above 100 entries, the
  cache holds exactly the entries at most 300 seconds old; otherwise it holds all of them.
  No entry that has not expired is ever evicted.
\<close>

theorem cache_ttl_purge:
  assumes "cache_ttl s = 300"
  shows "fst (get_cached_result key now s) =
           (case map_of (query_cache s) key of
              None \<Rightarrow> None
            | Some item \<Rightarrow>
                if now - item_timestamp item < 300000000 then Some (item_result item) else None) \<and>
         (fst (get_cached_result key now s) = None \<longrightarrow>
            map_of (query_cache (snd (get_cached_result key now s))) key = None) \<and>
         set (query_cache (cache_result key res now s)) =
           (if 100 < length (AList.update key \<lparr>item_result = res, item_timestamp = now\<rparr>
                               (query_cache s))
            then {e \<in> set (AList.update key \<lparr>item_result = res, item_timestamp = now\<rparr>
                               (query_cache s)).
                    now - item_timestamp (snd e) \<le> 300000000}
            else set (AList.update key \<lparr>item_result = res, item_timestamp = now\<rparr>
                               (query_cache s)))"
proof -
  have a: "fst (get_cached_result key now s) =
           (case map_of (query_cache s) key of
              None \<Rightarrow> None
            | Some item \<Rightarrow>
                if now - item_timestamp item < 300000000 then Some (item_result item) else None)"
    using assms by (simp add: get_cached_result_def timedelta_seconds_def split: option.splits)
  have b: "fst (get_cached_result key now s) = None \<longrightarrow>
            map_of (query_cache (snd (get_cached_result key now s))) key = None"
    using assms
    by (simp add: get_cached_result_def timedelta_seconds_def delete_conv split: option.splits)
  have c: "set (query_cache (cache_result key res now s)) =
           (if 100 < length (AList.update key \<lparr>item_result = res, item_timestamp = now\<rparr>
                               (query_cache s))
            then {e \<in> set (AList.update key \<lparr>item_result = res, item_timestamp = now\<rparr>
                               (query_cache s)).
                    now - item_timestamp (snd e) \<le> 300000000}
            else set (AList.update key \<lparr>item_result = res, item_timestamp = now\<rparr>
                               (query_cache s)))"
    using assms by (auto simp: cache_result_def timedelta_seconds_def Let_def)
  from a b c show ?thesis by blast
qed

theorem cache_ttl_purge_witness:
  "cache_ttl one_entry_service = 300 \<and>
   fst (get_cached_result ''0'' 299999999 one_entry_service) = Some sample_response \<and>
   fst (get_cached_result ''0'' 300000000 one_entry_service) = None \<and>
   map_of (query_cache (snd (get_cached_result ''0'' 300000000 one_entry_service))) ''0'' = None"
proof -
  have t: "cache_ttl one_entry_service = 300"
    by (simp add: one_entry_service_def new_RetrievalService_def)
  have q: "query_cache one_entry_service =
      [(''0'', \<lparr>item_result = sample_response, item_timestamp = 0\<rparr>)]"
    by (simp add: one_entry_service_def)
  show ?thesis
    using cache_ttl_purge [OF t, of "''0''" 299999999]
      cache_ttl_purge [OF t, of "''0''" 300000000] t
    by (simp add: q)
qed

section \<open>Properties of the query analyzer\<close>

lemma match_patterns_same: "match_patterns name patterns q name = name"
  by (induction patterns) auto

lemma recognise_intent_question:
  "recognise_intent intent_patterns q (JStr (ascii ''question'')) = JStr (ascii ''question'')"
  by (simp add: intent_patterns_def match_patterns_same Let_def del: match_patterns.simps)

lemma summary_query_intent: "first_matching_intent summary_query = JStr (ascii ''summary'')"
  by (simp add: first_matching_intent_def intent_patterns_def summary_query_def re_search_def)

text \<open>
  C5. The deterministic pass assigns the intent \<open>question\<close> to every query. The loop leaves
  at \<open>if analysis.intent == intent: break\<close> after the first category, because the intent
  starts as \<open>question\<close> and the first category is \<open>question\<close>, whether or not one of its
  patterns matched. For the sample query, which only matches a pattern of \<open>summary\<close>, the
  first matching category is \<open>summary\<close> and the code answers \<open>question\<close>.
\<close>

theorem basic_analysis_intent_is_question:
  "intent (basic_analysis env q) = JStr (ascii ''question'') \<and>
   first_matching_intent summary_query = JStr (ascii ''summary'') \<and>
   intent (basic_analysis env summary_query) \<noteq> first_matching_intent summary_query"
proof -
  have a: "intent (basic_analysis env q') = JStr (ascii ''question'')" for q'
    by (simp add: basic_analysis_def Let_def recognise_intent_question)
  have "JStr (ascii ''question'') \<noteq> JStr (ascii ''summary'')"
    by (simp add: ascii_def)
  then show ?thesis using a summary_query_intent by simp
qed






















section \<open>Properties of the streaming chat\<close>

lemma last_last_n: "0 < n \<Longrightarrow> last (last_n n (xs @ [x])) = x"
  by (simp add: last_n_def)

lemma add_message_last:
  assumes "cid \<noteq> []"
  shows "\<exists>cm' conv. add_message cid r c None new_uuid now cm = (Returns True, cm') \<and>
     get_conversation cid cm' = Some conv \<and> messages conv \<noteq> [] \<and>
     last (messages conv) = \<lparr>role = r, content = c, timestamp = now, msg_metadata = []\<rparr>"
proof (cases "map_of (conversations cm) cid")
  case None
  then show ?thesis
    using add_message_fresh [OF None assms, of r c None new_uuid now]
    by (auto simp: get_conversation_def request_message_def)
next
  case (Some conv)
  have pos: "0 < max_messages" by (simp add: max_messages_def)
  have "last_n max_messages (messages conv @ [request_message (r, c, None, new_uuid, now)]) \<noteq> []"
    using pos by (simp add: last_n_def)
  then show ?thesis
    using add_message_existing [OF Some, of r c None new_uuid now] last_last_n [OF pos]
    by (auto simp: get_conversation_def request_message_def)
qed

lemma persist_turn_last:
  assumes "cid \<noteq> []"
  shows "\<exists>cm' conv. persist_turn cid user_text full new_uuid now cm = (Returns True, cm') \<and>
     get_conversation cid cm' = Some conv \<and>
     last (messages conv) =
       \<lparr>role = ASSISTANT, content = full, timestamp = now, msg_metadata = []\<rparr>"
proof -
  obtain cm1 where a: "add_message cid USER user_text None new_uuid now cm = (Returns True, cm1)"
    using add_message_last [OF assms, of USER user_text new_uuid now cm] by blast
  obtain cm' conv where b: "add_message cid ASSISTANT full None new_uuid now cm1 = (Returns True, cm')"
    and c: "get_conversation cid cm' = Some conv"
    and d: "last (messages conv) =
       \<lparr>role = ASSISTANT, content = full, timestamp = now, msg_metadata = []\<rparr>"
    using add_message_last [OF assms, of ASSISTANT full new_uuid now cm1] by blast
  show ?thesis using a b c d by (simp add: persist_turn_def)
qed

text \<open>
  The increment that the \<open>except\<close> branch of \<open>stream_chat\<close> yields is an empty chunk: the
  error text and the terminal flag it is given name no field of the model.
\<close>

lemma error_increment_is_empty_chunk: "error_increment env cid e = chunk_increment cid None []"
  by (simp add: error_increment_def chunk_increment_def new_StreamingChatResponse_def)

lemma replicate_two_more: "replicate n x @ [x, x] = replicate (n + 2) x"
  by (induction n) simp_all

lemma increments_not_final:
  "is_final (chunk_increment cid ctx c) = False \<and> is_final (final_increment cid sources) = False \<and>
   is_final (error_increment env cid e) = False"
  by (simp add: error_increment_def chunk_increment_def final_increment_def
      new_StreamingChatResponse_def)

text \<open>
  C3. What the code does when the provider fails in the middle of a stream, the prompt having
  been built and the sources extracted: \<open>_stream_generate_response\<close> catches the exception
  and yields an error text as one more increment, so \<open>stream_chat\<close> sees a stream that ends
  normally and never enters its \<open>except\<close> branch. The caller receives every increment of the
  provider, the error text as an ordinary chunk, and a last increment with an empty chunk
  and the sources; no increment is final. The conversation then ends with an assistant
  message made of the partial response followed by the error text.
\<close>

theorem stream_chat_provider_failure:
  assumes cid: "request_conversation_id request = Some cid" "cid \<noteq> []"
    and ctx: "ctx = (if enable_retrieval request
             then retrieve_context env (message request) (max_retrieved_chunks request)
                    (chat_similarity_threshold request)
             else None)"
    and prompt: "build_complete_prompt env (message request) ctx
                   (get_recent_messages cid 10 cm) = Returns prompt"
    and fails: "generate_stream env prompt = Returns (chunks, Failed e)"
    and sources: "(case ctx of None \<Rightarrow> Returns [] | Some found \<Rightarrow> extract_sources env found) =
                    Returns sources"
  shows "\<exists>cm' conv.
     stream_chat env request new_uuid now cm =
       (map (chunk_increment cid ctx)
          (chunks @ [generation_error_prefix @ exception_str env e]) @
        [final_increment cid sources], cm') \<and>
     map chunk (fst (stream_chat env request new_uuid now cm)) =
       chunks @ [generation_error_prefix @ exception_str env e, []] \<and>
     map is_final (fst (stream_chat env request new_uuid now cm)) =
       replicate (length chunks + 2) False \<and>
     get_conversation cid cm' = Some conv \<and>
     last (messages conv) =
       \<lparr>role = ASSISTANT,
        content = concat chunks @ generation_error_prefix @ exception_str env e,
        timestamp = now, msg_metadata = []\<rparr>"
proof -
  let ?err = "generation_error_prefix @ exception_str env e"
  let ?incs = "map (chunk_increment cid ctx) (chunks @ [?err]) @ [final_increment cid sources]"
  have gen: "stream_generate_response env prompt = chunks @ [?err]"
    using fails by (simp add: stream_generate_response_def)
  obtain cm' conv where p: "persist_turn cid (message request) (concat (chunks @ [?err]))
        new_uuid now cm = (Returns True, cm')"
    and c: "get_conversation cid cm' = Some conv"
    and l: "last (messages conv) =
       \<lparr>role = ASSISTANT, content = concat (chunks @ [?err]), timestamp = now,
        msg_metadata = []\<rparr>"
    using persist_turn_last [OF cid(2)] by blast
  have run: "stream_chat env request new_uuid now cm = (?incs, cm')"
    using cid ctx [symmetric] prompt sources p
    by (simp add: stream_chat_def gen Let_def)
  have ch: "chunk (chunk_increment cid ctx c) = c" for c
    by (simp add: chunk_increment_def new_StreamingChatResponse_def)
  have fi: "is_final (chunk_increment cid ctx c) = False" for c
    by (simp add: chunk_increment_def new_StreamingChatResponse_def)
  have chunks_out: "map chunk ?incs = chunks @ [?err, []]"
    by (simp add: ch comp_def final_increment_def new_StreamingChatResponse_def)
  have "map is_final ?incs = replicate (length chunks) False @ [False, False]"
    by (simp add: fi comp_def final_increment_def new_StreamingChatResponse_def
        map_replicate_const)
  then have flags: "map is_final ?incs = replicate (length chunks + 2) False"
    by (simp only: replicate_two_more)
  show ?thesis using run chunks_out flags c l by simp
qed

theorem stream_chat_provider_failure_witness:
  "request_conversation_id sample_chat_request = Some ''c1'' \<and>
   generate_stream failing_rag_env (ascii ''hi'') =
     Returns ([ascii ''Hel''], Failed (ProviderError (ascii ''boom''))) \<and>
   map chunk (fst (stream_chat failing_rag_env sample_chat_request ''u'' 0
                    (new_ConversationManager 1000 24))) =
     [ascii ''Hel'', generation_error_prefix @ ascii ''boom'', []] \<and>
   map is_final (fst (stream_chat failing_rag_env sample_chat_request ''u'' 0
                    (new_ConversationManager 1000 24))) = [False, False, False] \<and>
   (\<exists>conv. get_conversation ''c1'' (snd (stream_chat failing_rag_env sample_chat_request ''u'' 0
                    (new_ConversationManager 1000 24))) = Some conv \<and>
      last (messages conv) =
        \<lparr>role = ASSISTANT, content = ascii ''Hel'' @ generation_error_prefix @ ascii ''boom'',
         timestamp = 0, msg_metadata = []\<rparr>)"
proof -
  let ?cm = "new_ConversationManager 1000 24"
  have cid: "request_conversation_id sample_chat_request = Some ''c1''" "''c1'' \<noteq> []"
    by (simp_all add: sample_chat_request_def)
  have ctx: "None = (if enable_retrieval sample_chat_request
             then retrieve_context failing_rag_env (message sample_chat_request)
                    (max_retrieved_chunks sample_chat_request)
                    (chat_similarity_threshold sample_chat_request)
             else None)"
    by (simp add: sample_chat_request_def)
  have prompt: "build_complete_prompt failing_rag_env (message sample_chat_request) None
                   (get_recent_messages ''c1'' 10 ?cm) = Returns (ascii ''hi'')"
    by (simp add: failing_rag_env_def sample_chat_request_def)
  have fails: "generate_stream failing_rag_env (ascii ''hi'') =
      Returns ([ascii ''Hel''], Failed (ProviderError (ascii ''boom'')))"
    by (simp add: failing_rag_env_def)
  have sources: "(case None of None \<Rightarrow> Returns [] | Some found \<Rightarrow> extract_sources failing_rag_env found) =
      Returns []"
    by simp
  have str: "exception_str failing_rag_env (ProviderError (ascii ''boom'')) = ascii ''boom''"
    by (simp add: failing_rag_env_def)
  obtain cm' conv where run: "stream_chat failing_rag_env sample_chat_request ''u'' 0 ?cm =
       (map (chunk_increment ''c1'' None)
          ([ascii ''Hel''] @ [generation_error_prefix @ ascii ''boom'']) @
        [final_increment ''c1'' []], cm')"
    and ch: "map chunk (fst (stream_chat failing_rag_env sample_chat_request ''u'' 0 ?cm)) =
       [ascii ''Hel''] @ [generation_error_prefix @ ascii ''boom'', []]"
    and fl: "map is_final (fst (stream_chat failing_rag_env sample_chat_request ''u'' 0 ?cm)) =
       replicate (length [ascii ''Hel''] + 2) False"
    and c: "get_conversation ''c1'' cm' = Some conv"
    and l: "last (messages conv) =
       \<lparr>role = ASSISTANT,
        content = concat [ascii ''Hel''] @ generation_error_prefix @ ascii ''boom'',
        timestamp = 0, msg_metadata = []\<rparr>"
    using stream_chat_provider_failure [OF cid ctx prompt fails sources, of "''u''" 0]
    unfolding str by blast
  have "map is_final (fst (stream_chat failing_rag_env sample_chat_request ''u'' 0 ?cm)) =
      [False, False, False]"
    using fl by (simp add: numeral_3_eq_3)
  then show ?thesis
    using cid(1) fails ch c l run by simp
qed

end
